theory Spec2Isabelle
  imports Main
begin

section \<open>Batoko Chautari: the weather module of static/js/main.js\<close>

text \<open>
  The module \<open>BatokoChautari.modules.weather\<close> keeps a cache of weather payloads keyed by a
  coordinate pair, fetches missing or stale payloads from \<open>/api/weather/{lat}/{lon}\<close>,
  renders a payload into a widget and repeats the whole pass on an interval timer.

  The embedding is shallow. The module's mutable state (the cache, the widgets it writes to,
  the timers it registers) is a record that every operation takes and returns. What the
  browser supplies is an argument: the reading of \<open>Date.now()\<close>, the response of a network
  call, the elapsing of a timer. A promise that waits for the network is a value holding what
  its callbacks captured; delivering a response runs those callbacks.
\<close>

subsection \<open>JavaScript values and the runtime operations the module relies on\<close>

text \<open>
  A payload is whatever \<open>response.json()\<close> produced: any JSON value. An object is the list of
  its own properties. \<open>JUndefined\<close> is the result of reading a property that is not there.
  Numbers are IEEE doubles in JavaScript; their type is the parameter \<open>'n\<close>, and the built-in
  operations on them that the module uses are the fields of a \<open>runtime\<close>:
  \<^item> \<open>parseFloat\<close>: the global function of that name;
  \<^item> \<open>num_to_string\<close>: the conversion of a number to a string in a template literal;
  \<^item> \<open>num_truthy\<close>: the conversion of a number to a boolean (false for zero and NaN);
  \<^item> \<open>num_gt_zero\<close>: the comparison \<open>n > 0\<close> on a number;
  \<^item> \<open>str_gt_zero\<close>: the comparison \<open>s > 0\<close> on a string (which converts it to a number).
\<close>

datatype 'n jsval =
    JUndefined
  | JNull
  | JBool bool
  | JNum 'n
  | JStr string
  | JArr "'n jsval list"
  | JObj "(string \<times> 'n jsval) list"

datatype js_error = TypeError | SyntaxError | NetworkError

record 'n runtime =
  parseFloat :: "string \<Rightarrow> 'n"
  num_to_string :: "'n \<Rightarrow> string"
  num_truthy :: "'n \<Rightarrow> bool"
  num_gt_zero :: "'n \<Rightarrow> bool"
  str_gt_zero :: "string \<Rightarrow> bool"

text \<open>Sequencing of computations that may throw: the first error ends the evaluation.\<close>

definition and_then :: "js_error + 'a \<Rightarrow> ('a \<Rightarrow> js_error + 'b) \<Rightarrow> js_error + 'b" where
  "and_then m f = (case m of Inl e \<Rightarrow> Inl e | Inr x \<Rightarrow> f x)"

text \<open>The conversion to boolean that \<open>!x\<close>, \<open>x || y\<close> and \<open>x && y\<close> apply.\<close>

fun truthy :: "'n runtime \<Rightarrow> 'n jsval \<Rightarrow> bool" where
  "truthy rt JUndefined = False"
| "truthy rt JNull = False"
| "truthy rt (JBool b) = b"
| "truthy rt (JNum n) = num_truthy rt n"
| "truthy rt (JStr s) = (s \<noteq> [])"
| "truthy rt (JArr xs) = True"
| "truthy rt (JObj kvs) = True"

text \<open>
  Reading a named property \<open>v.name\<close>. On \<open>undefined\<close> and \<open>null\<close> it throws a TypeError. An
  object yields its own property, and \<open>undefined\<close> when it has none: the names the module
  reads (\<open>error\<close>, \<open>current\<close>, \<open>forecast\<close>, \<open>icon\<close>, \<open>description\<close>, \<open>temp\<close>, \<open>humidity\<close>,
  \<open>wind_speed\<close>, \<open>date\<close>, \<open>temp_max\<close>, \<open>temp_min\<close>) are on no built-in prototype, so
  booleans, numbers, strings and arrays yield \<open>undefined\<close> for them as well.
\<close>

fun get_prop :: "'n jsval \<Rightarrow> string \<Rightarrow> js_error + 'n jsval" where
  "get_prop JUndefined name = Inl TypeError"
| "get_prop JNull name = Inl TypeError"
| "get_prop (JObj kvs) name = Inr (case map_of kvs name of None \<Rightarrow> JUndefined | Some v \<Rightarrow> v)"
| "get_prop v name = Inr JUndefined"

text \<open>
  The conversion to string of a template literal. An array is joined with commas, its
  \<open>undefined\<close> and \<open>null\<close> elements as empty strings. A parsed object has no callable property
  of its own, so it converts through \<open>Object.prototype.toString\<close> unless an own property
  \<open>toString\<close> hides that method, in which case no conversion is left and a TypeError is thrown.
\<close>

fun to_string :: "'n runtime \<Rightarrow> 'n jsval \<Rightarrow> js_error + string"
  and join_elems :: "'n runtime \<Rightarrow> 'n jsval list \<Rightarrow> js_error + string" where
  "to_string rt JUndefined = Inr ''undefined''"
| "to_string rt JNull = Inr ''null''"
| "to_string rt (JBool b) = Inr (if b then ''true'' else ''false'')"
| "to_string rt (JNum n) = Inr (num_to_string rt n)"
| "to_string rt (JStr s) = Inr s"
| "to_string rt (JArr xs) = join_elems rt xs"
| "to_string rt (JObj kvs) =
     (if map_of kvs ''toString'' = None then Inr ''[object Object]'' else Inl TypeError)"
| "join_elems rt [] = Inr []"
| "join_elems rt (x # xs) =
     and_then (if x = JUndefined \<or> x = JNull then Inr [] else to_string rt x) (\<lambda>s.
       if xs = [] then Inr s
       else and_then (join_elems rt xs) (\<lambda>r. Inr (s @ '','' @ r)))"

text \<open>
  The comparison \<open>v > 0\<close>: an object or array is first converted to a primitive, which for
  parsed values is its string; the primitive is then converted to a number.
\<close>

fun gt_zero :: "'n runtime \<Rightarrow> 'n jsval \<Rightarrow> js_error + bool" where
  "gt_zero rt JUndefined = Inr False"
| "gt_zero rt JNull = Inr False"
| "gt_zero rt (JBool b) = Inr b"
| "gt_zero rt (JNum n) = Inr (num_gt_zero rt n)"
| "gt_zero rt (JStr s) = Inr (str_gt_zero rt s)"
| "gt_zero rt v = and_then (to_string rt v) (\<lambda>s. Inr (str_gt_zero rt s))"

subsection \<open>The module's state\<close>

text \<open>
  \<open>cache\<close> is the module's \<open>Map\<close> from cache key to entry. \<open>widgets\<close> are the elements that
  \<open>querySelectorAll('[data-weather-lat][data-weather-lon]')\<close> returns, in document order, each
  with its two data attributes and the last string assigned to its \<open>innerHTML\<close>.
  \<open>intervals\<close> are the timers registered with \<open>setInterval\<close>. \<open>waiting\<close> are the promise
  chains of \<open>loadWeatherData\<close> that have not run yet, each with the index of the widget its
  callbacks captured. Three fields record what the module did and are never read by it:
  \<open>requests\<close> (the URL of every \<open>fetch\<close> call), \<open>console\<close> (the errors passed to
  \<open>console.error\<close>) and \<open>loads\<close> (how many times \<open>loadWeatherData\<close> was entered).
\<close>

record 'n cache_entry =
  data :: "'n jsval"
  timestamp :: int

record widget =
  weatherLat :: string
  weatherLon :: string
  innerHTML :: string

datatype 'n promise =
    Resolved "'n jsval"
  | Pending nat string

datatype 'n settled = Fulfilled "'n jsval" | Rejected js_error

datatype 'n response = NetworkFailure | HttpResponse nat "'n jsval option"

datatype timer_callback = LoadWeatherData

record 'n page =
  cache :: "string \<rightharpoonup> 'n cache_entry"
  widgets :: "widget list"
  intervals :: "(nat \<times> timer_callback) list"
  waiting :: "(nat \<times> 'n promise) list"
  requests :: "string list"
  console :: "js_error list"
  loads :: nat

text \<open>\<open>BatokoChautari.config.weatherUpdateInterval\<close>, in milliseconds.\<close>

definition weatherUpdateInterval :: nat where
  "weatherUpdateInterval = 300000"

subsection \<open>fetchWeather\<close>

definition cacheKey :: "'n runtime \<Rightarrow> 'n \<Rightarrow> 'n \<Rightarrow> string" where
  "cacheKey rt lat lon = num_to_string rt lat @ '','' @ num_to_string rt lon"

definition weatherUrl :: "'n runtime \<Rightarrow> 'n \<Rightarrow> 'n \<Rightarrow> string" where
  "weatherUrl rt lat lon = ''/api/weather/'' @ num_to_string rt lat @ ''/'' @ num_to_string rt lon"

text \<open>
  The synchronous part of \<open>fetchWeather(lat, lon)\<close>, called when \<open>Date.now()\<close> reads \<open>now\<close>.
  A cached entry younger than 300000 ms gives a promise that is already resolved with the
  entry's payload. Otherwise \<open>fetch\<close> is called, and the promise returned waits for the
  response; \<open>Pending k key\<close> is the promise of the \<open>k\<close>-th request, whose callbacks captured
  \<open>cacheKey\<close>.
\<close>

definition fetchWeather :: "'n runtime \<Rightarrow> 'n \<Rightarrow> 'n \<Rightarrow> int \<Rightarrow> 'n page \<Rightarrow> 'n promise \<times> 'n page" where
  "fetchWeather rt lat lon now s =
     (let key = cacheKey rt lat lon;
          cached = cache s key
      in case cached of
           Some e \<Rightarrow>
             if now - timestamp e < 300000 then (Resolved (data e), s)
             else (Pending (length (requests s)) key,
                   s\<lparr>requests := requests s @ [weatherUrl rt lat lon]\<rparr>)
         | None \<Rightarrow>
             (Pending (length (requests s)) key,
              s\<lparr>requests := requests s @ [weatherUrl rt lat lon]\<rparr>))"

text \<open>
  The two \<open>then\<close> callbacks of \<open>fetchWeather\<close>, run when the response of the request arrives.
  A network failure rejects the promise of \<open>fetch\<close>, and both callbacks are skipped.
  \<open>HttpResponse status body\<close> is a response with that status whose body parses to \<open>body\<close>,
  \<open>None\<close> when it is not JSON: then \<open>response.json()\<close> rejects with a SyntaxError. The status
  is not looked at. A parsed body is stored under the captured key with the reading \<open>t\<close> of
  \<open>Date.now()\<close> at that moment, and the promise is fulfilled with it.
\<close>

definition fetchWeather_then :: "string \<Rightarrow> 'n response \<Rightarrow> int \<Rightarrow> 'n page \<Rightarrow> 'n settled \<times> 'n page" where
  "fetchWeather_then key resp t s =
     (case resp of
        NetworkFailure \<Rightarrow> (Rejected NetworkError, s)
      | HttpResponse status body \<Rightarrow>
          (case body of
             None \<Rightarrow> (Rejected SyntaxError, s)
           | Some d \<Rightarrow> (Fulfilled d, s\<lparr>cache := (cache s)(key \<mapsto> \<lparr>data = d, timestamp = t\<rparr>)\<rparr>)))"

text \<open>How a promise returned by \<open>fetchWeather\<close> settles, given the response to its request.\<close>

definition settle :: "'n promise \<Rightarrow> 'n response \<Rightarrow> int \<Rightarrow> 'n page \<Rightarrow> 'n settled \<times> 'n page" where
  "settle p resp t s =
     (case p of
        Resolved d \<Rightarrow> (Fulfilled d, s)
      | Pending k key \<Rightarrow> fetchWeather_then key resp t s)"

text \<open>
  One call of \<open>fetchWeather\<close> followed to its end, with nothing else running in between:
  the call at time \<open>now\<close>, and, when a request was made, its response \<open>resp\<close> at time \<open>t\<close>.
\<close>

definition fetchWeather_await ::
  "'n runtime \<Rightarrow> 'n \<Rightarrow> 'n \<Rightarrow> int \<Rightarrow> 'n response \<Rightarrow> int \<Rightarrow> 'n page \<Rightarrow> 'n settled \<times> 'n page" where
  "fetchWeather_await rt lat lon now resp t s =
     (case fetchWeather rt lat lon now s of (p, s') \<Rightarrow> settle p resp t s')"

subsection \<open>renderWeather\<close>

text \<open>The content a widget gets when there is no weather to show.\<close>

definition fallbackHtml :: string where
  \<open>fallbackHtml = ''<p class="text-muted">Weather data unavailable</p>''\<close>

text \<open>
  The fixed text of the template literal of \<open>renderWeather\<close>, cut at its placeholders and
  taken byte for byte from the source file. Each constant is the text that stands before the
  placeholder it is named after; \<open>tpl_day_*\<close> belong to the inner template of one forecast
  day, \<open>tpl_forecast_open\<close> and \<open>tpl_forecast_close\<close> to the template around the days.
\<close>

definition tpl_current_icon :: string where
  \<open>tpl_current_icon = ''\<newline>            <div class="weather-current text-center mb-3">\<newline>                <div class="d-flex align-items-center justify-content-center mb-2">\<newline>                    <img src="https://openweathermap.org/img/wn/''\<close>

definition tpl_current_alt :: string where
  \<open>tpl_current_alt = ''@2x.png" \<newline>                         alt="''\<close>

definition tpl_current_temp :: string where
  \<open>tpl_current_temp = ''" style="width: 50px;">\<newline>                    <span class="weather-temp ms-2">''\<close>

definition tpl_current_desc :: string where
  \<open>tpl_current_desc = [CHR 0xC3, CHR 0x82, CHR 0xC2, CHR 0xB0] @ ''C</span>\<newline>                </div>\<newline>                <p class="weather-desc mb-1">''\<close>

definition tpl_current_humidity :: string where
  \<open>tpl_current_humidity = ''</p>\<newline>                <div class="weather-details">\<newline>                    <span>'' @ [CHR 0xC3, CHR 0xB0, CHR 0xC5, CHR 0xB8, CHR 0xE2, CHR 0x80, CHR 0x99, CHR 0xC2, CHR 0xA7] @ '' ''\<close>

definition tpl_current_wind :: string where
  \<open>tpl_current_wind = ''%</span>\<newline>                    <span>'' @ [CHR 0xC3, CHR 0xB0, CHR 0xC5, CHR 0xB8, CHR 0xE2, CHR 0x80, CHR 0x99, CHR 0xC2, CHR 0xA8] @ '' ''\<close>

definition tpl_current_end :: string where
  \<open>tpl_current_end = ''m/s</span>\<newline>                </div>\<newline>            </div>\<newline>            ''\<close>

definition tpl_forecast_open :: string where
  \<open>tpl_forecast_open = ''\<newline>                <div class="weather-forecast">\<newline>                    ''\<close>

definition tpl_day_date :: string where
  \<open>tpl_day_date = ''\<newline>                        <div class="forecast-day">\<newline>                            <small>''\<close>

definition tpl_day_icon :: string where
  \<open>tpl_day_icon = ''</small>\<newline>                            <img src="https://openweathermap.org/img/wn/''\<close>

definition tpl_day_max :: string where
  \<open>tpl_day_max = ''.png" \<newline>                                 alt="Weather" style="width: 30px;">\<newline>                            <small>''\<close>

definition tpl_day_min :: string where
  \<open>tpl_day_min = [CHR 0xC3, CHR 0x82, CHR 0xC2, CHR 0xB0] @ ''/''\<close>

definition tpl_day_end :: string where
  \<open>tpl_day_end = [CHR 0xC3, CHR 0x82, CHR 0xC2, CHR 0xB0] @ ''</small>\<newline>                        </div>\<newline>                    ''\<close>

definition tpl_forecast_close :: string where
  \<open>tpl_forecast_close = ''\<newline>                </div>\<newline>            ''\<close>

definition tpl_end :: string where
  \<open>tpl_end = ''\<newline>        ''\<close>

text \<open>A placeholder \<open>${v.name}\<close>: read the property, convert it to a string.\<close>

definition interpolate :: "'n runtime \<Rightarrow> 'n jsval \<Rightarrow> string \<Rightarrow> js_error + string" where
  "interpolate rt v name = and_then (get_prop v name) (to_string rt)"

text \<open>The part of the template that shows the current weather, placeholders in source order.\<close>

definition current_html :: "'n runtime \<Rightarrow> 'n jsval \<Rightarrow> js_error + string" where
  "current_html rt current =
     and_then (interpolate rt current ''icon'') (\<lambda>icon.
     and_then (interpolate rt current ''description'') (\<lambda>alt.
     and_then (interpolate rt current ''temp'') (\<lambda>temp.
     and_then (interpolate rt current ''description'') (\<lambda>description.
     and_then (interpolate rt current ''humidity'') (\<lambda>humidity.
     and_then (interpolate rt current ''wind_speed'') (\<lambda>wind_speed.
       Inr (tpl_current_icon @ icon @ tpl_current_alt @ alt @ tpl_current_temp @ temp @
            tpl_current_desc @ description @ tpl_current_humidity @ humidity @
            tpl_current_wind @ wind_speed @ tpl_current_end)))))))"

text \<open>The arrow function given to \<open>forecast.map\<close>: the markup of one day.\<close>

definition day_html :: "'n runtime \<Rightarrow> 'n jsval \<Rightarrow> js_error + string" where
  "day_html rt day =
     and_then (interpolate rt day ''date'') (\<lambda>date.
     and_then (interpolate rt day ''icon'') (\<lambda>icon.
     and_then (interpolate rt day ''temp_max'') (\<lambda>temp_max.
     and_then (interpolate rt day ''temp_min'') (\<lambda>temp_min.
       Inr (tpl_day_date @ date @ tpl_day_icon @ icon @ tpl_day_max @ temp_max @
            tpl_day_min @ temp_min @ tpl_day_end)))))"

text \<open>\<open>Array.prototype.map\<close> with that function: the days in order, stopping at the first throw.\<close>

fun map_days :: "'n runtime \<Rightarrow> 'n jsval list \<Rightarrow> js_error + string list" where
  "map_days rt [] = Inr []"
| "map_days rt (day # days) =
     and_then (day_html rt day) (\<lambda>h. and_then (map_days rt days) (\<lambda>hs. Inr (h # hs)))"

text \<open>
  The condition \<open>forecast.length > 0\<close>. An array and a string have a length; an object has one
  only as an own property, of any value; a boolean or a number has none, and \<open>undefined > 0\<close>
  is false.
\<close>

fun length_gt_zero :: "'n runtime \<Rightarrow> 'n jsval \<Rightarrow> js_error + bool" where
  "length_gt_zero rt JUndefined = Inl TypeError"
| "length_gt_zero rt JNull = Inl TypeError"
| "length_gt_zero rt (JArr days) = Inr (days \<noteq> [])"
| "length_gt_zero rt (JStr s) = Inr (s \<noteq> [])"
| "length_gt_zero rt (JObj kvs) =
     gt_zero rt (case map_of kvs ''length'' of None \<Rightarrow> JUndefined | Some v \<Rightarrow> v)"
| "length_gt_zero rt v = Inr False"

text \<open>
  The forecast part of the template. Only an array has a method \<open>map\<close>: on any other value
  whose length compares greater than zero the call \<open>forecast.map(...)\<close> throws a TypeError.
\<close>

definition forecast_html :: "'n runtime \<Rightarrow> 'n jsval \<Rightarrow> js_error + string" where
  "forecast_html rt forecast =
     and_then (length_gt_zero rt forecast) (\<lambda>nonempty.
       if nonempty then
         (case forecast of
            JArr days \<Rightarrow>
              and_then (map_days rt days) (\<lambda>hs.
                Inr (tpl_forecast_open @ concat hs @ tpl_forecast_close))
          | _ \<Rightarrow> Inl TypeError)
       else Inr [])"

text \<open>
  The guard \<open>!data || data.error\<close> of \<open>renderWeather\<close>. It reads \<open>data.error\<close> only when
  \<open>data\<close> is truthy, hence neither \<open>undefined\<close> nor \<open>null\<close>, so the guard never throws.
\<close>

definition unavailable :: "'n runtime \<Rightarrow> 'n jsval \<Rightarrow> bool" where
  "unavailable rt d =
     (\<not> truthy rt d \<or> truthy rt (case get_prop d ''error'' of Inr v \<Rightarrow> v | Inl e \<Rightarrow> JUndefined))"

text \<open>
  \<open>renderWeather(widget, data)\<close>: the widget with its new content, or the error thrown, in
  which case nothing was assigned.
\<close>

definition renderWeather :: "'n runtime \<Rightarrow> widget \<Rightarrow> 'n jsval \<Rightarrow> js_error + widget" where
  "renderWeather rt w d =
     (if unavailable rt d
      then Inr (w\<lparr>innerHTML := fallbackHtml\<rparr>)
      else
        (case get_prop d ''current'' of
           Inl e \<Rightarrow> Inl e
         | Inr current \<Rightarrow>
             (case get_prop d ''forecast'' of
                Inl e \<Rightarrow> Inl e
              | Inr f \<Rightarrow>
                  (let forecast = (if truthy rt f then f else JArr [])
                   in and_then (current_html rt current) (\<lambda>c.
                      and_then (forecast_html rt forecast) (\<lambda>fc.
                        Inr (w\<lparr>innerHTML := c @ fc @ tpl_end\<rparr>)))))))"

subsection \<open>The documented shape of a payload\<close>

text \<open>
  The payload the weather endpoint is documented to return has an object \<open>current\<close> with the
  fields \<open>temp\<close>, \<open>description\<close>, \<open>icon\<close>, \<open>humidity\<close>, \<open>wind_speed\<close> and a sequence
  \<open>forecast\<close> of objects with the fields \<open>date\<close>, \<open>icon\<close>, \<open>temp_max\<close>, \<open>temp_min\<close>.
  \<open>weather_payload\<close> holds of the values that are good enough for \<open>renderWeather\<close>:
  \<open>current\<close> and every day can be read from (neither \<open>undefined\<close> nor \<open>null\<close>), the fields
  shown are primitive values or absent, and \<open>forecast\<close> is an array unless it is falsy.
  \<open>field\<close> is the value of a property, \<open>undefined\<close> where there is nothing to read.
\<close>

fun primitive :: "'n jsval \<Rightarrow> bool" where
  "primitive (JArr xs) = False"
| "primitive (JObj kvs) = False"
| "primitive v = True"

definition field :: "'n jsval \<Rightarrow> string \<Rightarrow> 'n jsval" where
  "field v name = (case get_prop v name of Inr x \<Rightarrow> x | Inl e \<Rightarrow> JUndefined)"

definition has_primitives :: "'n jsval \<Rightarrow> string list \<Rightarrow> bool" where
  "has_primitives v names =
     (v \<noteq> JUndefined \<and> v \<noteq> JNull \<and> list_all (\<lambda>name. primitive (field v name)) names)"

definition weather_payload :: "'n runtime \<Rightarrow> 'n jsval \<Rightarrow> bool" where
  "weather_payload rt d =
     (has_primitives (field d ''current'')
        [''icon'', ''description'', ''temp'', ''humidity'', ''wind_speed''] \<and>
      (\<not> truthy rt (field d ''forecast'') \<or>
       (case field d ''forecast'' of
          JArr days \<Rightarrow>
            list_all (\<lambda>day. has_primitives day [''date'', ''icon'', ''temp_max'', ''temp_min'']) days
        | _ \<Rightarrow> False)))"

subsection \<open>loadWeatherData\<close>

text \<open>
  The \<open>catch\<close> callback of a widget's promise chain: the error is logged and the widget gets
  the fallback content. The widget the callbacks captured is the one at index \<open>i\<close>.
\<close>

definition onRejected :: "nat \<Rightarrow> js_error \<Rightarrow> 'n page \<Rightarrow> 'n page" where
  "onRejected i e s =
     (if i < length (widgets s)
      then s\<lparr>console := console s @ [e],
             widgets := (widgets s)[i := (widgets s ! i)\<lparr>innerHTML := fallbackHtml\<rparr>]\<rparr>
      else s\<lparr>console := console s @ [e]\<rparr>)"

text \<open>
  The \<open>then\<close> callback: \<open>renderWeather\<close> on the widget; what it throws rejects the promise
  that \<open>then\<close> returned, and so reaches the \<open>catch\<close> callback that follows it in the chain.
\<close>

definition onFulfilled :: "'n runtime \<Rightarrow> nat \<Rightarrow> 'n jsval \<Rightarrow> 'n page \<Rightarrow> 'n page" where
  "onFulfilled rt i d s =
     (if i < length (widgets s)
      then (case renderWeather rt (widgets s ! i) d of
              Inr w \<Rightarrow> s\<lparr>widgets := (widgets s)[i := w]\<rparr>
            | Inl e \<Rightarrow> onRejected i e s)
      else s)"

definition run_chain :: "'n runtime \<Rightarrow> nat \<Rightarrow> 'n settled \<Rightarrow> 'n page \<Rightarrow> 'n page" where
  "run_chain rt i r s =
     (case r of Fulfilled d \<Rightarrow> onFulfilled rt i d s | Rejected e \<Rightarrow> onRejected i e s)"

text \<open>
  The body of \<open>weatherWidgets.forEach\<close>, from widget \<open>i\<close> on: parse the two attributes, call
  \<open>fetchWeather\<close> (\<open>clock i\<close> is what \<open>Date.now()\<close> reads in that call) and attach the two
  callbacks to the promise. No callback runs before the loop has ended.
\<close>

fun load_widgets :: "'n runtime \<Rightarrow> (nat \<Rightarrow> int) \<Rightarrow> nat \<Rightarrow> widget list \<Rightarrow> 'n page \<Rightarrow> 'n page" where
  "load_widgets rt clock i [] s = s"
| "load_widgets rt clock i (w # ws) s =
     (let lat = parseFloat rt (weatherLat w);
          lon = parseFloat rt (weatherLon w)
      in case fetchWeather rt lat lon (clock i) s of
           (p, s') \<Rightarrow> load_widgets rt clock (Suc i) ws (s'\<lparr>waiting := waiting s' @ [(i, p)]\<rparr>))"

definition loadWeatherData :: "'n runtime \<Rightarrow> (nat \<Rightarrow> int) \<Rightarrow> 'n page \<Rightarrow> 'n page" where
  "loadWeatherData rt clock s = load_widgets rt clock 0 (widgets s) (s\<lparr>loads := Suc (loads s)\<rparr>)"

text \<open>
  When the running script has ended, the callbacks of the promises that were already
  resolved run, in the order in which they were attached. The other chains keep waiting.
\<close>

fun is_pending :: "'n promise \<Rightarrow> bool" where
  "is_pending (Pending k key) = True"
| "is_pending (Resolved d) = False"

fun run_resolved :: "'n runtime \<Rightarrow> (nat \<times> 'n promise) list \<Rightarrow> 'n page \<Rightarrow> 'n page" where
  "run_resolved rt [] s = s"
| "run_resolved rt ((i, Resolved d) # cs) s = run_resolved rt cs (onFulfilled rt i d s)"
| "run_resolved rt ((i, Pending k key) # cs) s = run_resolved rt cs s"

definition run_microtasks :: "'n runtime \<Rightarrow> 'n page \<Rightarrow> 'n page" where
  "run_microtasks rt s =
     run_resolved rt (waiting s) (s\<lparr>waiting := filter (\<lambda>c. is_pending (snd c)) (waiting s)\<rparr>)"

text \<open>
  The response to request \<open>k\<close> arrives at time \<open>t\<close>: the chain that waits for it, if there is
  one, is taken off the list and runs to its end.
\<close>

fun waits_for :: "nat \<Rightarrow> nat \<times> 'n promise \<Rightarrow> bool" where
  "waits_for k (i, Pending k' key) = (k' = k)"
| "waits_for k (i, Resolved d) = False"

definition respond :: "'n runtime \<Rightarrow> nat \<Rightarrow> 'n response \<Rightarrow> int \<Rightarrow> 'n page \<Rightarrow> 'n page" where
  "respond rt k resp t s =
     (case find (waits_for k) (waiting s) of
        None \<Rightarrow> s
      | Some (i, p) \<Rightarrow>
          (case settle p resp t (s\<lparr>waiting := filter (\<lambda>c. \<not> waits_for k c) (waiting s)\<rparr>) of
             (r, s') \<Rightarrow> run_chain rt i r s'))"

text \<open>
  What a chain leaves in its widget. \<open>result_of\<close> is how the promise of \<open>fetchWeather\<close>
  settles for a given response, and \<open>rejects\<close> says that it is rejected. \<open>shown\<close> is the
  widget after its \<open>then\<close> callback received a payload: rendered, or with the fallback
  content when rendering threw. \<open>chain_widget\<close> is the widget after the whole chain.
\<close>

fun result_of :: "'n response \<Rightarrow> 'n settled" where
  "result_of NetworkFailure = Rejected NetworkError"
| "result_of (HttpResponse status None) = Rejected SyntaxError"
| "result_of (HttpResponse status (Some d)) = Fulfilled d"

definition rejects :: "'n response \<Rightarrow> bool" where
  "rejects resp = (case resp of NetworkFailure \<Rightarrow> True | HttpResponse status body \<Rightarrow> body = None)"

definition shown :: "'n runtime \<Rightarrow> widget \<Rightarrow> 'n jsval \<Rightarrow> widget" where
  "shown rt w d =
     (case renderWeather rt w d of Inr w' \<Rightarrow> w' | Inl e \<Rightarrow> w\<lparr>innerHTML := fallbackHtml\<rparr>)"

fun chain_widget :: "'n runtime \<Rightarrow> widget \<Rightarrow> 'n settled \<Rightarrow> widget" where
  "chain_widget rt w (Fulfilled d) = shown rt w d"
| "chain_widget rt w (Rejected e) = w\<lparr>innerHTML := fallbackHtml\<rparr>"

subsection \<open>init and the periodic update\<close>

definition setupPeriodicUpdates :: "'n page \<Rightarrow> 'n page" where
  "setupPeriodicUpdates s = s\<lparr>intervals := intervals s @ [(weatherUpdateInterval, LoadWeatherData)]\<rparr>"

definition init :: "'n runtime \<Rightarrow> (nat \<Rightarrow> int) \<Rightarrow> 'n page \<Rightarrow> 'n page" where
  "init rt clock s = setupPeriodicUpdates (loadWeatherData rt clock s)"

text \<open>
  What the browser does with the module. At \<open>DOMContentLoaded\<close> it runs \<open>init\<close>, once.
  Afterwards, an event is either the elapsing of one period of the registered timers, which
  runs the callback of each of them once, or the arrival of the response to a request.
\<close>

definition startup :: "'n runtime \<Rightarrow> (nat \<Rightarrow> int) \<Rightarrow> 'n page \<Rightarrow> 'n page" where
  "startup rt clock s = run_microtasks rt (init rt clock s)"

fun run_callback :: "'n runtime \<Rightarrow> (nat \<Rightarrow> int) \<Rightarrow> timer_callback \<Rightarrow> 'n page \<Rightarrow> 'n page" where
  "run_callback rt clock LoadWeatherData s = run_microtasks rt (loadWeatherData rt clock s)"

datatype 'n event =
    IntervalTick "nat \<Rightarrow> int"
  | ResponseArrived nat "'n response" int

fun handle :: "'n runtime \<Rightarrow> 'n event \<Rightarrow> 'n page \<Rightarrow> 'n page" where
  "handle rt (IntervalTick clock) s = fold (\<lambda>timer. run_callback rt clock (snd timer)) (intervals s) s"
| "handle rt (ResponseArrived k resp t) s = respond rt k resp t s"

definition run :: "'n runtime \<Rightarrow> 'n event list \<Rightarrow> 'n page \<Rightarrow> 'n page" where
  "run rt es s = fold (handle rt) es s"

text \<open>The responses \<open>(k, resp, t)\<close> of a list as events, and the events that are timer ticks.\<close>

definition arrivals :: "(nat \<times> 'n response \<times> int) list \<Rightarrow> 'n event list" where
  "arrivals rs = map (\<lambda>(k, resp, t). ResponseArrived k resp t) rs"

fun is_tick :: "'n event \<Rightarrow> bool" where
  "is_tick (IntervalTick clock) = True"
| "is_tick (ResponseArrived k resp t) = False"

subsection \<open>Invariants of the waiting chains\<close>

text \<open>
  \<open>chains_apart\<close>: no two waiting chains belong to the same widget, and no two wait for the
  same request. \<open>loading_inv i\<close> is what holds inside the loop of \<open>loadWeatherData\<close> when
  it reaches widget \<open>i\<close>: the chains attached so far are apart, they belong to widgets before
  \<open>i\<close>, and the requests they wait for have been made.
\<close>

definition chains_apart :: "(nat \<times> 'n promise) list \<Rightarrow> bool" where
  "chains_apart cs \<longleftrightarrow>
     distinct (map fst cs) \<and>
     (\<forall>i i' k key key'. (i, Pending k key) \<in> set cs \<longrightarrow> (i', Pending k key') \<in> set cs \<longrightarrow> i = i')"

definition loading_inv :: "nat \<Rightarrow> 'n page \<Rightarrow> bool" where
  "loading_inv i s \<longleftrightarrow>
     chains_apart (waiting s) \<and>
     (\<forall>c \<in> set (waiting s). fst c < i) \<and>
     (\<forall>j k key. (j, Pending k key) \<in> set (waiting s) \<longrightarrow> k < length (requests s))"

section \<open>Concrete inputs\<close>

subsection \<open>A runtime for the integers among the numbers\<close>

text \<open>
  The examples below need a runtime that computes. This one has the integers and NaN
  (\<open>None\<close>) as its numbers. It prints an integer as JavaScript does. Its \<open>parseFloat\<close> skips
  leading spaces, takes an optional sign and reads the digits that follow, which is what the
  JavaScript function returns whenever the number written is an integer. Its comparison of
  a string with zero reads the string as an unsigned integer literal.
\<close>

definition digit_value :: "char \<Rightarrow> nat option" where
  "digit_value c =
     (let k = length (takeWhile (\<lambda>d. d \<noteq> c) ''0123456789'')
      in if k < 10 then Some k else None)"

definition is_digit :: "char \<Rightarrow> bool" where
  "is_digit c = (digit_value c \<noteq> None)"

fun digits_value :: "string \<Rightarrow> nat \<Rightarrow> nat" where
  "digits_value [] acc = acc"
| "digits_value (c # cs) acc =
     digits_value cs (case digit_value c of None \<Rightarrow> acc | Some d \<Rightarrow> 10 * acc + d)"

definition read_unsigned :: "string \<Rightarrow> nat option" where
  "read_unsigned s =
     (let ds = takeWhile is_digit s in if ds = [] then None else Some (digits_value ds 0))"

definition int_parseFloat :: "string \<Rightarrow> int option" where
  "int_parseFloat s =
     (case dropWhile (\<lambda>c. c = CHR '' '') s of
        [] \<Rightarrow> None
      | c # cs \<Rightarrow>
          if c = CHR ''-'' then map_option (\<lambda>n. - int n) (read_unsigned cs)
          else if c = CHR ''+'' then map_option int (read_unsigned cs)
          else map_option int (read_unsigned (c # cs)))"

definition digit_char :: "nat \<Rightarrow> char" where
  "digit_char d = ''0123456789'' ! (d mod 10)"

function show_nat :: "nat \<Rightarrow> string" where
  "show_nat n = (if n < 10 then [digit_char n] else show_nat (n div 10) @ [digit_char n])"
  by pat_completeness auto
termination
  by (relation "measure id") auto

declare show_nat.simps [simp del]

definition int_to_string :: "int option \<Rightarrow> string" where
  "int_to_string n =
     (case n of
        None \<Rightarrow> ''NaN''
      | Some i \<Rightarrow> if i < 0 then ''-'' @ show_nat (nat (- i)) else show_nat (nat i))"

definition int_runtime :: "(int option) runtime" where
  "int_runtime =
     \<lparr>parseFloat = int_parseFloat,
      num_to_string = int_to_string,
      num_truthy = (\<lambda>n. n \<noteq> None \<and> n \<noteq> Some 0),
      num_gt_zero = (\<lambda>n. case n of None \<Rightarrow> False | Some i \<Rightarrow> 0 < i),
      str_gt_zero = (\<lambda>s. list_all is_digit s \<and> (case read_unsigned s of None \<Rightarrow> False | Some k \<Rightarrow> 0 < k))\<rparr>"

subsection \<open>A page and two payloads\<close>

text \<open>
  Kathmandu at whole degrees, a page with two widgets and nothing cached, a payload of the
  documented shape, and the body of an error response.
\<close>

definition kathmandu_lat :: "int option" where
  "kathmandu_lat = Some 27"

definition kathmandu_lon :: "int option" where
  "kathmandu_lon = Some 85"

definition empty_widget :: "string \<Rightarrow> string \<Rightarrow> widget" where
  "empty_widget lat lon = \<lparr>weatherLat = lat, weatherLon = lon, innerHTML = []\<rparr>"

definition fresh_page :: "(int option) page" where
  "fresh_page =
     \<lparr>cache = Map.empty,
      widgets = [empty_widget ''0'' ''0'', empty_widget ''27'' ''85''],
      intervals = [],
      waiting = [],
      requests = [],
      console = [],
      loads = 0\<rparr>"

definition sunny :: "(int option) jsval" where
  "sunny =
     JObj [(''current'', JObj [(''temp'', JNum (Some 21)), (''description'', JStr ''clear sky''),
                               (''icon'', JStr ''01d''), (''humidity'', JNum (Some 40)),
                               (''wind_speed'', JNum (Some 3))]),
           (''forecast'', JArr [JObj [(''date'', JStr ''Mon''), (''icon'', JStr ''02d''),
                                      (''temp_max'', JNum (Some 23)), (''temp_min'', JNum (Some 12))]])]"

definition error_body :: "(int option) jsval" where
  "error_body = JObj [(''error'', JStr ''Weather service unavailable'')]"

text \<open>The page after the first successful query for Kathmandu, answered at time 1200.\<close>

definition cached_page :: "(int option) page" where
  "cached_page =
     fresh_page\<lparr>requests := [''/api/weather/27/85''],
                cache := [''27,85'' \<mapsto> \<lparr>data = sunny, timestamp = 1200\<rparr>]\<rparr>"

text \<open>The page after \<open>startup\<close> at time 1000: both widgets wait for the network.\<close>

definition loading_page :: "(int option) page" where
  "loading_page =
     fresh_page\<lparr>intervals := [(300000, LoadWeatherData)],
                waiting := [(0, Pending 0 ''0,0''), (1, Pending 1 ''27,85'')],
                requests := [''/api/weather/0/0'', ''/api/weather/27/85''],
                loads := 1\<rparr>"

section \<open>Properties\<close>

subsection \<open>Evaluating the concrete inputs\<close>

lemma kathmandu_key: "cacheKey int_runtime kathmandu_lat kathmandu_lon = ''27,85''"
  by (simp add: cacheKey_def int_runtime_def kathmandu_lat_def kathmandu_lon_def
      int_to_string_def show_nat.simps digit_char_def)

lemma kathmandu_url: "weatherUrl int_runtime kathmandu_lat kathmandu_lon = ''/api/weather/27/85''"
  by (simp add: weatherUrl_def int_runtime_def kathmandu_lat_def kathmandu_lon_def
      int_to_string_def show_nat.simps digit_char_def)

lemma first_fetch:
  "fetchWeather_await int_runtime kathmandu_lat kathmandu_lon 1000
     (HttpResponse 200 (Some sunny)) 1200 fresh_page = (Fulfilled sunny, cached_page)"
  by (simp add: fetchWeather_await_def fetchWeather_def settle_def fetchWeather_then_def
      kathmandu_key kathmandu_url fresh_page_def cached_page_def)

lemma cached_entry:
  "cache cached_page (cacheKey int_runtime kathmandu_lat kathmandu_lon)
     = Some \<lparr>data = sunny, timestamp = 1200\<rparr>"
  by (simp add: kathmandu_key cached_page_def)

lemma parse_zero: "int_parseFloat ''0'' = Some 0"
  by (simp add: int_parseFloat_def read_unsigned_def is_digit_def digit_value_def)

lemma parse_27: "int_parseFloat ''27'' = Some 27"
  by (simp add: int_parseFloat_def read_unsigned_def is_digit_def digit_value_def)

lemma parse_85: "int_parseFloat ''85'' = Some 85"
  by (simp add: int_parseFloat_def read_unsigned_def is_digit_def digit_value_def)

lemma zero_key: "cacheKey int_runtime (Some 0) (Some 0) = ''0,0''"
  by (simp add: cacheKey_def int_runtime_def int_to_string_def show_nat.simps digit_char_def)

lemma zero_url: "weatherUrl int_runtime (Some 0) (Some 0) = ''/api/weather/0/0''"
  by (simp add: weatherUrl_def int_runtime_def int_to_string_def show_nat.simps digit_char_def)

lemma int_runtime_parseFloat: "parseFloat int_runtime = int_parseFloat"
  by (simp add: int_runtime_def)

lemma startup_fresh: "startup int_runtime (\<lambda>i. 1000) fresh_page = loading_page"
  using kathmandu_key kathmandu_url
  by (simp add: startup_def init_def loadWeatherData_def setupPeriodicUpdates_def
      run_microtasks_def fetchWeather_def fresh_page_def loading_page_def empty_widget_def
      int_runtime_parseFloat parse_zero parse_27 parse_85 zero_key zero_url
      kathmandu_lat_def kathmandu_lon_def weatherUpdateInterval_def)

lemma error_body_unavailable: "unavailable int_runtime error_body"
  by (simp add: unavailable_def error_body_def)

subsection \<open>The two paths of fetchWeather\<close>

lemma fetchWeather_hit:
  "cache s (cacheKey rt lat lon) = Some e \<Longrightarrow> now - timestamp e < 300000 \<Longrightarrow>
   fetchWeather rt lat lon now s = (Resolved (data e), s)"
  by (simp add: fetchWeather_def Let_def)

lemma fetchWeather_miss:
  "\<not> (\<exists>e. cache s (cacheKey rt lat lon) = Some e \<and> now - timestamp e < 300000) \<Longrightarrow>
   fetchWeather rt lat lon now s =
     (Pending (length (requests s)) (cacheKey rt lat lon),
      s\<lparr>requests := requests s @ [weatherUrl rt lat lon]\<rparr>)"
  by (auto simp: fetchWeather_def Let_def split: option.splits)

lemma await_hit:
  "cache s (cacheKey rt lat lon) = Some e \<Longrightarrow> now - timestamp e < 300000 \<Longrightarrow>
   fetchWeather_await rt lat lon now resp t s = (Fulfilled (data e), s)"
  by (simp add: fetchWeather_await_def fetchWeather_hit settle_def)

lemma await_miss:
  "\<not> (\<exists>e. cache s (cacheKey rt lat lon) = Some e \<and> now - timestamp e < 300000) \<Longrightarrow>
   fetchWeather_await rt lat lon now resp t s =
     fetchWeather_then (cacheKey rt lat lon) resp t
       (s\<lparr>requests := requests s @ [weatherUrl rt lat lon]\<rparr>)"
  by (simp add: fetchWeather_await_def fetchWeather_miss settle_def)

lemma await_fulfilled_entry:
  assumes "fetchWeather_await rt lat lon now resp t s = (Fulfilled p, s')"
  shows "\<exists>e1. cache s' (cacheKey rt lat lon) = Some e1 \<and> data e1 = p \<and>
           (requests s' \<noteq> requests s \<longrightarrow> timestamp e1 = t)"
proof (cases "\<exists>e. cache s (cacheKey rt lat lon) = Some e \<and> now - timestamp e < 300000")
  case True
  then obtain e where e: "cache s (cacheKey rt lat lon) = Some e" "now - timestamp e < 300000"
    by blast
  from await_hit [OF e, of resp t] assms have "p = data e" "s' = s" by simp_all
  with e show ?thesis by simp
next
  case False
  from await_miss [OF False, of resp t] assms show ?thesis
    by (auto simp: fetchWeather_then_def split: response.splits option.splits)
qed

subsection \<open>C1: a fresh entry is served from the cache\<close>

text \<open>
  Claim C1. If the cache holds an entry for the key of \<open>(lat, lon)\<close> whose timestamp is less
  than 300000 ms before the reading of the clock, \<open>fetchWeather\<close> returns a promise already
  resolved with the payload of that entry and leaves the page as it was, so that no request
  is made; followed to its end, the call is fulfilled with that payload whatever the network
  would have answered. And when a first call was fulfilled with a payload \<open>p\<close>, the cache
  holds \<open>p\<close> under the key afterwards (stamped with the time of the response when the first
  call went to the network), and every later call with the same arguments made while that
  entry is younger than 300000 ms is fulfilled with the same \<open>p\<close> and changes nothing.
\<close>

theorem fetchWeather_cache_hit:
  "(cache s (cacheKey rt lat lon) = Some e \<longrightarrow> now - timestamp e < 300000 \<longrightarrow>
      fetchWeather rt lat lon now s = (Resolved (data e), s) \<and>
      fetchWeather_await rt lat lon now resp t s = (Fulfilled (data e), s))
   \<and> (fetchWeather_await rt lat lon now' resp' t' s = (Fulfilled p, s') \<longrightarrow>
        (\<exists>e1. cache s' (cacheKey rt lat lon) = Some e1 \<and> data e1 = p \<and>
           (requests s' \<noteq> requests s \<longrightarrow> timestamp e1 = t') \<and>
           (\<forall>now2 resp2 t2. now2 - timestamp e1 < 300000 \<longrightarrow>
              fetchWeather_await rt lat lon now2 resp2 t2 s' = (Fulfilled p, s'))))"
proof (intro conjI impI)
  assume "cache s (cacheKey rt lat lon) = Some e" "now - timestamp e < 300000"
  then show "fetchWeather rt lat lon now s = (Resolved (data e), s)"
    and "fetchWeather_await rt lat lon now resp t s = (Fulfilled (data e), s)"
    by (simp_all add: fetchWeather_hit await_hit)
next
  assume first: "fetchWeather_await rt lat lon now' resp' t' s = (Fulfilled p, s')"
  from await_fulfilled_entry [OF first] obtain e1 where
    e1: "cache s' (cacheKey rt lat lon) = Some e1" "data e1 = p"
        "requests s' \<noteq> requests s \<longrightarrow> timestamp e1 = t'"
    by blast
  have "fetchWeather_await rt lat lon now2 resp2 t2 s' = (Fulfilled p, s')"
    if "now2 - timestamp e1 < 300000" for now2 resp2 t2
    using await_hit [OF e1(1) that, of resp2 t2] e1(2) by simp
  with e1 show "\<exists>e1. cache s' (cacheKey rt lat lon) = Some e1 \<and> data e1 = p \<and>
           (requests s' \<noteq> requests s \<longrightarrow> timestamp e1 = t') \<and>
           (\<forall>now2 resp2 t2. now2 - timestamp e1 < 300000 \<longrightarrow>
              fetchWeather_await rt lat lon now2 resp2 t2 s' = (Fulfilled p, s'))"
    by blast
qed

theorem fetchWeather_cache_hit_witness:
  "fetchWeather_await int_runtime kathmandu_lat kathmandu_lon 1000
     (HttpResponse 200 (Some sunny)) 1200 fresh_page = (Fulfilled sunny, cached_page)
   \<and> cache cached_page ''27,85'' = Some \<lparr>data = sunny, timestamp = 1200\<rparr>
   \<and> fetchWeather int_runtime kathmandu_lat kathmandu_lon 301199 cached_page
       = (Resolved sunny, cached_page)
   \<and> fetchWeather_await int_runtime kathmandu_lat kathmandu_lon 301199 NetworkFailure 301250
       cached_page = (Fulfilled sunny, cached_page)"
proof -
  have young: "(301199::int) - timestamp \<lparr>data = sunny, timestamp = 1200\<rparr> < 300000"
    by simp
  from fetchWeather_cache_hit [where s = cached_page and rt = int_runtime
      and lat = kathmandu_lat and lon = kathmandu_lon and now = 301199
      and e = "\<lparr>data = sunny, timestamp = 1200\<rparr>"] cached_entry young
  have hit: "fetchWeather int_runtime kathmandu_lat kathmandu_lon 301199 cached_page
               = (Resolved sunny, cached_page)"
    by simp
  from fetchWeather_cache_hit [where s = fresh_page and rt = int_runtime
      and lat = kathmandu_lat and lon = kathmandu_lon and now' = 1000
      and resp' = "HttpResponse 200 (Some sunny)" and t' = 1200 and p = sunny
      and s' = cached_page] first_fetch cached_entry
  have again: "fetchWeather_await int_runtime kathmandu_lat kathmandu_lon 301199 NetworkFailure
                 301250 cached_page = (Fulfilled sunny, cached_page)"
    by auto
  from first_fetch cached_entry hit again show ?thesis
    by (simp add: kathmandu_key)
qed

subsection \<open>The callbacks and the fallback content\<close>

lemma render_unavailable:
  "unavailable rt d \<Longrightarrow> renderWeather rt w d = Inr (w\<lparr>innerHTML := fallbackHtml\<rparr>)"
  by (simp add: renderWeather_def)

lemma onRejected_fallback:
  "i < length (widgets s) \<Longrightarrow> innerHTML (widgets (onRejected i e s) ! i) = fallbackHtml"
  by (simp add: onRejected_def)

lemma onFulfilled_unavailable:
  "unavailable rt d \<Longrightarrow> i < length (widgets s) \<Longrightarrow>
   innerHTML (widgets (onFulfilled rt i d s) ! i) = fallbackHtml"
  by (simp add: onFulfilled_def render_unavailable)

lemma then_rejects:
  "(\<exists>err. fst (fetchWeather_then key resp t s) = Rejected err) \<longleftrightarrow>
   (resp = NetworkFailure \<or> (\<exists>status. resp = HttpResponse status None))"
  by (auto simp: fetchWeather_then_def split: response.splits option.splits)

subsection \<open>C2: when fetchWeather rejects\<close>

text \<open>
  Claim C2, as the code has it. \<open>fetchWeather\<close> never looks at the status of the response.
  Followed to its end, a call is rejected exactly when it went to the network (no entry
  younger than 300000 ms) and either the network call failed or the body of the response
  is not JSON; a response of any status whose body is JSON fulfils the promise. When the
  promise a widget's chain waits for is rejected in one of these two ways, the chain's
  \<open>catch\<close> callback gives the widget the fallback content.
\<close>

theorem fetchWeather_rejects:
  "((\<exists>err. fst (fetchWeather_await rt lat lon now resp t s) = Rejected err) \<longleftrightarrow>
      (\<not> (\<exists>e. cache s (cacheKey rt lat lon) = Some e \<and> now - timestamp e < 300000) \<and>
       (resp = NetworkFailure \<or> (\<exists>status. resp = HttpResponse status None))))
   \<and> (find (waits_for k) (waiting s) = Some (i, Pending k key) \<longrightarrow> i < length (widgets s) \<longrightarrow>
        (resp = NetworkFailure \<or> (\<exists>status. resp = HttpResponse status None)) \<longrightarrow>
        innerHTML (widgets (respond rt k resp t s) ! i) = fallbackHtml)"
proof (intro conjI impI)
  show "(\<exists>err. fst (fetchWeather_await rt lat lon now resp t s) = Rejected err) \<longleftrightarrow>
      (\<not> (\<exists>e. cache s (cacheKey rt lat lon) = Some e \<and> now - timestamp e < 300000) \<and>
       (resp = NetworkFailure \<or> (\<exists>status. resp = HttpResponse status None)))"
  proof (cases "\<exists>e. cache s (cacheKey rt lat lon) = Some e \<and> now - timestamp e < 300000")
    case True
    then obtain e where "cache s (cacheKey rt lat lon) = Some e" "now - timestamp e < 300000"
      by blast
    from await_hit [OF this, of resp t] True show ?thesis by simp
  next
    case False
    from await_miss [OF False, of resp t] False then_rejects show ?thesis by simp
  qed
next
  assume chain: "find (waits_for k) (waiting s) = Some (i, Pending k key)"
    and i: "i < length (widgets s)"
    and failed: "resp = NetworkFailure \<or> (\<exists>status. resp = HttpResponse status None)"
  from failed obtain err where
    "settle (Pending k key) resp t (s\<lparr>waiting := filter (\<lambda>c. \<not> waits_for k c) (waiting s)\<rparr>)
       = (Rejected err, s\<lparr>waiting := filter (\<lambda>c. \<not> waits_for k c) (waiting s)\<rparr>)"
    by (auto simp: settle_def fetchWeather_then_def)
  with chain i show "innerHTML (widgets (respond rt k resp t s) ! i) = fallbackHtml"
    by (simp add: respond_def run_chain_def onRejected_def)
qed

text \<open>
  The claim as stated fails: a response with status 500 whose body is the JSON of an error
  message does not reject, the promise is fulfilled with that body.
\<close>

theorem non_success_response_fulfils:
  "fst (fetchWeather_await int_runtime kathmandu_lat kathmandu_lon 1000
         (HttpResponse 500 (Some error_body)) 1200 fresh_page) = Fulfilled error_body"
  by (simp add: fetchWeather_await_def fetchWeather_def settle_def fetchWeather_then_def
      fresh_page_def)

theorem fetchWeather_rejects_witness:
  "fst (fetchWeather_await int_runtime kathmandu_lat kathmandu_lon 1000 NetworkFailure 1200 fresh_page)
     = Rejected NetworkError
   \<and> find (waits_for 0) (waiting loading_page) = Some (0, Pending 0 ''0,0'')
   \<and> innerHTML (widgets (respond int_runtime 0 (HttpResponse 500 None) 1200 loading_page) ! 0)
       = fallbackHtml"
proof -
  from fetchWeather_rejects [where s = fresh_page and rt = int_runtime
      and lat = kathmandu_lat and lon = kathmandu_lon and now = 1000 and resp = NetworkFailure
      and t = 1200, THEN conjunct1]
  have "\<exists>err. fst (fetchWeather_await int_runtime kathmandu_lat kathmandu_lon 1000 NetworkFailure
                1200 fresh_page) = Rejected err"
    by (simp add: fresh_page_def)
  then have rejected: "fst (fetchWeather_await int_runtime kathmandu_lat kathmandu_lon 1000
                NetworkFailure 1200 fresh_page) = Rejected NetworkError"
    by (auto simp: fetchWeather_await_def fetchWeather_def settle_def fetchWeather_then_def
        fresh_page_def)
  have chain: "find (waits_for 0) (waiting loading_page) = Some (0, Pending 0 ''0,0'')"
    by (simp add: loading_page_def)
  have len: "0 < length (widgets loading_page)"
    by (simp add: loading_page_def fresh_page_def)
  from fetchWeather_rejects [where s = loading_page and k = 0 and i = 0
      and key = "''0,0''" and resp = "HttpResponse 500 None" and rt = int_runtime and t = 1200,
      THEN conjunct2]
    chain len
  have "innerHTML (widgets (respond int_runtime 0 (HttpResponse 500 None) 1200 loading_page) ! 0)
       = fallbackHtml"
    by simp
  with rejected chain show ?thesis by simp
qed

subsection \<open>C3: freshness and expiry\<close>

text \<open>
  Claim C3. A call is served from the cache exactly when the cache holds an entry for the
  key with \<open>now - timestamp < 300000\<close>. When the entry for the key is that old or older (the
  state any earlier query left, once the time to live has elapsed), the call makes exactly
  one request, the one for its own URL, and when the response carries a payload, the call is
  fulfilled with it and the entry for the key is replaced by that payload with the reading
  of the clock at that moment. A call for a key that has no entry makes exactly one request
  as well.
\<close>

theorem cache_expiry:
  "((\<exists>d s'. fetchWeather rt lat lon now s = (Resolved d, s')) \<longleftrightarrow>
      (\<exists>e. cache s (cacheKey rt lat lon) = Some e \<and> now - timestamp e < 300000))
   \<and> (cache s (cacheKey rt lat lon) = Some e \<longrightarrow> 300000 \<le> now - timestamp e \<longrightarrow>
        requests (snd (fetchWeather_await rt lat lon now resp t s))
          = requests s @ [weatherUrl rt lat lon]
        \<and> (\<forall>status d. resp = HttpResponse status (Some d) \<longrightarrow>
              fst (fetchWeather_await rt lat lon now resp t s) = Fulfilled d \<and>
              cache (snd (fetchWeather_await rt lat lon now resp t s))
                = (cache s)(cacheKey rt lat lon \<mapsto> \<lparr>data = d, timestamp = t\<rparr>)))
   \<and> (cache s (cacheKey rt lat lon) = None \<longrightarrow>
        requests (snd (fetchWeather_await rt lat lon now resp t s))
          = requests s @ [weatherUrl rt lat lon])"
proof (intro conjI impI)
  show "(\<exists>d s'. fetchWeather rt lat lon now s = (Resolved d, s')) \<longleftrightarrow>
      (\<exists>e. cache s (cacheKey rt lat lon) = Some e \<and> now - timestamp e < 300000)"
  proof
    assume served: "\<exists>d s'. fetchWeather rt lat lon now s = (Resolved d, s')"
    show "\<exists>e. cache s (cacheKey rt lat lon) = Some e \<and> now - timestamp e < 300000"
    proof (rule ccontr)
      assume "\<not> (\<exists>e. cache s (cacheKey rt lat lon) = Some e \<and> now - timestamp e < 300000)"
      from fetchWeather_miss [OF this] served show False by simp
    qed
  next
    assume "\<exists>e. cache s (cacheKey rt lat lon) = Some e \<and> now - timestamp e < 300000"
    then obtain e' where "cache s (cacheKey rt lat lon) = Some e'" "now - timestamp e' < 300000"
      by blast
    from fetchWeather_hit [OF this]
    show "\<exists>d s'. fetchWeather rt lat lon now s = (Resolved d, s')"
      by blast
  qed
next
  assume stale: "cache s (cacheKey rt lat lon) = Some e" "300000 \<le> now - timestamp e"
  then have no: "\<not> (\<exists>e. cache s (cacheKey rt lat lon) = Some e \<and> now - timestamp e < 300000)"
    by auto
  show "requests (snd (fetchWeather_await rt lat lon now resp t s))
          = requests s @ [weatherUrl rt lat lon]"
    by (simp add: await_miss [OF no] fetchWeather_then_def split: response.splits option.splits)
  show "\<forall>status d. resp = HttpResponse status (Some d) \<longrightarrow>
              fst (fetchWeather_await rt lat lon now resp t s) = Fulfilled d \<and>
              cache (snd (fetchWeather_await rt lat lon now resp t s))
                = (cache s)(cacheKey rt lat lon \<mapsto> \<lparr>data = d, timestamp = t\<rparr>)"
    by (simp add: await_miss [OF no] fetchWeather_then_def)
next
  assume "cache s (cacheKey rt lat lon) = None"
  then have no: "\<not> (\<exists>e. cache s (cacheKey rt lat lon) = Some e \<and> now - timestamp e < 300000)"
    by simp
  show "requests (snd (fetchWeather_await rt lat lon now resp t s))
          = requests s @ [weatherUrl rt lat lon]"
    by (simp add: await_miss [OF no] fetchWeather_then_def split: response.splits option.splits)
qed

theorem cache_expiry_witness:
  "cache cached_page ''27,85'' = Some \<lparr>data = sunny, timestamp = 1200\<rparr>
   \<and> (300000::int) \<le> 301200 - 1200
   \<and> requests (snd (fetchWeather_await int_runtime kathmandu_lat kathmandu_lon 301200
         (HttpResponse 200 (Some error_body)) 301450 cached_page))
       = [''/api/weather/27/85'', ''/api/weather/27/85'']
   \<and> cache (snd (fetchWeather_await int_runtime kathmandu_lat kathmandu_lon 301200
         (HttpResponse 200 (Some error_body)) 301450 cached_page)) ''27,85''
       = Some \<lparr>data = error_body, timestamp = 301450\<rparr>
   \<and> (\<exists>d s'. fetchWeather int_runtime kathmandu_lat kathmandu_lon 301199 cached_page = (Resolved d, s'))"
proof -
  have stale: "(300000::int) \<le> 301200 - timestamp \<lparr>data = sunny, timestamp = 1200\<rparr>"
    by simp
  have young: "(301199::int) - timestamp \<lparr>data = sunny, timestamp = 1200\<rparr> < 300000"
    by simp
  from cache_expiry [where s = cached_page and rt = int_runtime and lat = kathmandu_lat
      and lon = kathmandu_lon and now = 301200 and e = "\<lparr>data = sunny, timestamp = 1200\<rparr>"
      and resp = "HttpResponse 200 (Some error_body)" and t = 301450] cached_entry stale
  have a: "requests (snd (fetchWeather_await int_runtime kathmandu_lat kathmandu_lon 301200
         (HttpResponse 200 (Some error_body)) 301450 cached_page))
       = [''/api/weather/27/85'', ''/api/weather/27/85'']"
    and b: "cache (snd (fetchWeather_await int_runtime kathmandu_lat kathmandu_lon 301200
         (HttpResponse 200 (Some error_body)) 301450 cached_page)) ''27,85''
       = Some \<lparr>data = error_body, timestamp = 301450\<rparr>"
    by (simp_all add: kathmandu_key kathmandu_url cached_page_def fresh_page_def)
  from cache_expiry [where s = cached_page and rt = int_runtime and lat = kathmandu_lat
      and lon = kathmandu_lon and now = 301199] cached_entry young
  have c: "\<exists>d s'. fetchWeather int_runtime kathmandu_lat kathmandu_lon 301199 cached_page = (Resolved d, s')"
    by blast
  from a b c cached_entry show ?thesis
    by (simp add: kathmandu_key)
qed

subsection \<open>C9: a failed fetch leaves the cache alone\<close>

text \<open>
  Claim C9. When the network call fails, or the body of the response is not JSON, the cache
  after the call is the cache before it: no entry is created and every stored entry keeps
  its payload and timestamp. This holds for the callbacks of a waiting promise in whatever
  state the page is when the response arrives, and for a call followed to its end.
\<close>

theorem failed_fetch_keeps_cache:
  "cache (snd (settle p NetworkFailure t s)) = cache s
   \<and> cache (snd (settle p (HttpResponse status None) t s)) = cache s
   \<and> cache (snd (fetchWeather_await rt lat lon now NetworkFailure t s)) = cache s
   \<and> cache (snd (fetchWeather_await rt lat lon now (HttpResponse status None) t s)) = cache s"
  by (simp add: settle_def fetchWeather_then_def fetchWeather_await_def fetchWeather_def Let_def
      split: promise.splits option.splits)

subsection \<open>C10: every JSON body is cached\<close>

text \<open>
  Claim C10. When a call goes to the network and the response, of whatever status, has a
  body that is JSON, the call is fulfilled with that body and the body is stored under the
  key with the time of the response. Every call with the same arguments made less than
  300000 ms after that time is fulfilled with the stored body and changes nothing, so no
  request is made. When the body is one that the guard of \<open>renderWeather\<close> takes for missing
  or erroneous, \<open>renderWeather\<close> gives any widget the fallback content, and so does the
  \<open>then\<close> callback of a widget's chain that receives it.
\<close>

theorem json_body_cached:
  assumes miss: "\<not> (\<exists>e. cache s (cacheKey rt lat lon) = Some e \<and> now - timestamp e < 300000)"
    and first: "fetchWeather_await rt lat lon now (HttpResponse status (Some d)) t s = (r, s')"
  shows "r = Fulfilled d \<and> cache s' (cacheKey rt lat lon) = Some \<lparr>data = d, timestamp = t\<rparr> \<and>
     (\<forall>now2 resp2 t2. now2 - t < 300000 \<longrightarrow>
        fetchWeather_await rt lat lon now2 resp2 t2 s' = (Fulfilled d, s')) \<and>
     (unavailable rt d \<longrightarrow>
        (\<forall>w. renderWeather rt w d = Inr (w\<lparr>innerHTML := fallbackHtml\<rparr>)) \<and>
        (\<forall>i < length (widgets s'). innerHTML (widgets (onFulfilled rt i d s') ! i) = fallbackHtml))"
proof -
  from first have r: "r = Fulfilled d"
    and s': "s' = s\<lparr>requests := requests s @ [weatherUrl rt lat lon],
                    cache := (cache s)(cacheKey rt lat lon \<mapsto> \<lparr>data = d, timestamp = t\<rparr>)\<rparr>"
    by (simp_all add: await_miss [OF miss] fetchWeather_then_def)
  from s' have entry: "cache s' (cacheKey rt lat lon) = Some \<lparr>data = d, timestamp = t\<rparr>"
    by simp
  have later: "fetchWeather_await rt lat lon now2 resp2 t2 s' = (Fulfilled d, s')"
    if "now2 - t < 300000" for now2 resp2 t2
    using await_hit [OF entry, of now2 resp2 t2] that by simp
  from r entry later show ?thesis
    by (simp add: render_unavailable onFulfilled_unavailable)
qed

theorem json_body_cached_witness:
  "fst (fetchWeather_await int_runtime kathmandu_lat kathmandu_lon 1000
          (HttpResponse 500 (Some error_body)) 1200 fresh_page) = Fulfilled error_body
   \<and> unavailable int_runtime error_body
   \<and> fetchWeather_await int_runtime kathmandu_lat kathmandu_lon 301199 NetworkFailure 301250
        (snd (fetchWeather_await int_runtime kathmandu_lat kathmandu_lon 1000
               (HttpResponse 500 (Some error_body)) 1200 fresh_page))
      = (Fulfilled error_body,
         snd (fetchWeather_await int_runtime kathmandu_lat kathmandu_lon 1000
               (HttpResponse 500 (Some error_body)) 1200 fresh_page))
   \<and> innerHTML (widgets (onFulfilled int_runtime 1 error_body
        (snd (fetchWeather_await int_runtime kathmandu_lat kathmandu_lon 1000
               (HttpResponse 500 (Some error_body)) 1200 fresh_page))) ! 1) = fallbackHtml"
proof -
  let ?first = "fetchWeather_await int_runtime kathmandu_lat kathmandu_lon 1000
                  (HttpResponse 500 (Some error_body)) 1200 fresh_page"
  have miss: "\<not> (\<exists>e. cache fresh_page (cacheKey int_runtime kathmandu_lat kathmandu_lon) = Some e
                   \<and> 1000 - timestamp e < 300000)"
    by (simp add: fresh_page_def)
  have first: "?first = (fst ?first, snd ?first)"
    by simp
  have len: "1 < length (widgets (snd ?first))"
    by (simp add: fetchWeather_await_def fetchWeather_def settle_def fetchWeather_then_def
        fresh_page_def)
  from json_body_cached [OF miss first] error_body_unavailable len
  show ?thesis
    by simp
qed

subsection \<open>What renderWeather returns and what it throws\<close>

lemma to_string_primitive: "primitive v \<Longrightarrow> \<exists>s. to_string rt v = Inr s"
  by (cases v) simp_all

lemma get_prop_defined: "v \<noteq> JUndefined \<Longrightarrow> v \<noteq> JNull \<Longrightarrow> get_prop v name = Inr (field v name)"
  by (cases v) (simp_all add: field_def)

lemma interpolate_primitive:
  assumes "has_primitives v names" "name \<in> set names"
  shows "\<exists>s. interpolate rt v name = Inr s"
proof -
  from assms have "v \<noteq> JUndefined" "v \<noteq> JNull" "primitive (field v name)"
    by (auto simp: has_primitives_def list_all_iff)
  then show ?thesis
    using to_string_primitive [of "field v name" rt]
    by (auto simp: interpolate_def get_prop_defined and_then_def)
qed

lemma current_html_total:
  assumes "has_primitives c [''icon'', ''description'', ''temp'', ''humidity'', ''wind_speed'']"
  shows "\<exists>h. current_html rt c = Inr h"
proof -
  obtain a where a: "interpolate rt c ''icon'' = Inr a"
    using interpolate_primitive [OF assms, of "''icon''" rt] by auto
  obtain b where b: "interpolate rt c ''description'' = Inr b"
    using interpolate_primitive [OF assms, of "''description''" rt] by auto
  obtain x where x: "interpolate rt c ''temp'' = Inr x"
    using interpolate_primitive [OF assms, of "''temp''" rt] by auto
  obtain y where y: "interpolate rt c ''humidity'' = Inr y"
    using interpolate_primitive [OF assms, of "''humidity''" rt] by auto
  obtain z where z: "interpolate rt c ''wind_speed'' = Inr z"
    using interpolate_primitive [OF assms, of "''wind_speed''" rt] by auto
  show ?thesis
    by (simp add: current_html_def and_then_def a b x y z)
qed

lemma day_html_total:
  assumes "has_primitives day [''date'', ''icon'', ''temp_max'', ''temp_min'']"
  shows "\<exists>h. day_html rt day = Inr h"
proof -
  obtain a where a: "interpolate rt day ''date'' = Inr a"
    using interpolate_primitive [OF assms, of "''date''" rt] by auto
  obtain b where b: "interpolate rt day ''icon'' = Inr b"
    using interpolate_primitive [OF assms, of "''icon''" rt] by auto
  obtain x where x: "interpolate rt day ''temp_max'' = Inr x"
    using interpolate_primitive [OF assms, of "''temp_max''" rt] by auto
  obtain y where y: "interpolate rt day ''temp_min'' = Inr y"
    using interpolate_primitive [OF assms, of "''temp_min''" rt] by auto
  show ?thesis
    by (simp add: day_html_def and_then_def a b x y)
qed

lemma map_days_total:
  "list_all (\<lambda>day. has_primitives day [''date'', ''icon'', ''temp_max'', ''temp_min'']) days \<Longrightarrow>
   \<exists>hs. map_days rt days = Inr hs"
proof (induction days)
  case Nil
  then show ?case by simp
next
  case (Cons day days)
  then obtain h hs where "day_html rt day = Inr h" "map_days rt days = Inr hs"
    using day_html_total [of day rt] by auto
  then show ?case by (simp add: and_then_def)
qed

lemma forecast_html_total:
  "list_all (\<lambda>day. has_primitives day [''date'', ''icon'', ''temp_max'', ''temp_min'']) days \<Longrightarrow>
   \<exists>h. forecast_html rt (JArr days) = Inr h"
  using map_days_total [of days rt] by (auto simp: forecast_html_def and_then_def)

lemma renderWeather_payload:
  assumes "weather_payload rt d"
  shows "\<exists>h. renderWeather rt w d = Inr (w\<lparr>innerHTML := h\<rparr>)"
proof (cases "unavailable rt d")
  case True
  then show ?thesis by (auto simp: renderWeather_def)
next
  case False
  then have d: "d \<noteq> JUndefined" "d \<noteq> JNull"
    by (auto simp: unavailable_def)
  from assms obtain c where c: "current_html rt (field d ''current'') = Inr c"
    using current_html_total [of "field d ''current''" rt] by (auto simp: weather_payload_def)
  have "\<exists>fc. forecast_html rt (if truthy rt (field d ''forecast'') then field d ''forecast'' else JArr [])
          = Inr fc"
  proof (cases "truthy rt (field d ''forecast'')")
    case True
    with assms obtain days where "field d ''forecast'' = JArr days"
      "list_all (\<lambda>day. has_primitives day [''date'', ''icon'', ''temp_max'', ''temp_min'']) days"
      by (auto simp: weather_payload_def split: jsval.splits)
    with True show ?thesis using forecast_html_total [of days rt] by simp
  next
    case False
    then show ?thesis using forecast_html_total [of "[]" rt] by simp
  qed
  then obtain fc where
    fc: "forecast_html rt (if truthy rt (field d ''forecast'') then field d ''forecast'' else JArr [])
          = Inr fc" ..
  from False c fc
  have "renderWeather rt w d = Inr (w\<lparr>innerHTML := c @ fc @ tpl_end\<rparr>)"
    by (simp add: renderWeather_def get_prop_defined [OF d] and_then_def Let_def)
  then show ?thesis ..
qed

lemma to_string_error: "to_string rt v = Inl e \<Longrightarrow> e = TypeError"
  and join_elems_error: "join_elems rt vs = Inl e \<Longrightarrow> e = TypeError"
  by (induction rt v and rt vs rule: to_string_join_elems.induct)
     (auto simp: and_then_def split: if_splits sum.splits)

lemma get_prop_error: "get_prop v name = Inl e \<Longrightarrow> e = TypeError"
  by (cases v) simp_all

lemma interpolate_error: "interpolate rt v name = Inl e \<Longrightarrow> e = TypeError"
  by (auto simp: interpolate_def and_then_def split: sum.splits
      dest: get_prop_error to_string_error)

lemma current_html_error: "current_html rt c = Inl e \<Longrightarrow> e = TypeError"
  by (auto simp: current_html_def and_then_def split: sum.splits dest: interpolate_error)

lemma day_html_error: "day_html rt day = Inl e \<Longrightarrow> e = TypeError"
  by (auto simp: day_html_def and_then_def split: sum.splits dest: interpolate_error)

lemma map_days_error: "map_days rt days = Inl e \<Longrightarrow> e = TypeError"
  by (induction days) (auto simp: and_then_def split: sum.splits dest: day_html_error)

lemma gt_zero_error: "gt_zero rt v = Inl e \<Longrightarrow> e = TypeError"
  by (cases v) (auto simp: and_then_def split: sum.splits if_splits dest: to_string_error join_elems_error)

lemma length_gt_zero_error: "length_gt_zero rt v = Inl e \<Longrightarrow> e = TypeError"
  by (cases v) (auto dest: gt_zero_error)

lemma forecast_html_error: "forecast_html rt f = Inl e \<Longrightarrow> e = TypeError"
  by (auto simp: forecast_html_def and_then_def split: sum.splits if_splits jsval.splits
      dest: length_gt_zero_error map_days_error)

lemma renderWeather_error: "renderWeather rt w d = Inl e \<Longrightarrow> e = TypeError"
  by (auto simp: renderWeather_def and_then_def Let_def split: sum.splits if_splits
      dest: get_prop_error current_html_error forecast_html_error)

lemma renderWeather_any_widget:
  "renderWeather rt w d = Inl e \<Longrightarrow> renderWeather rt w' d = Inl e"
  by (auto simp: renderWeather_def and_then_def Let_def split: sum.splits if_splits)

lemma onFulfilled_throw:
  "renderWeather rt w d = Inl e \<Longrightarrow> i < length (widgets s) \<Longrightarrow>
   innerHTML (widgets (onFulfilled rt i d s) ! i) = fallbackHtml"
  using renderWeather_any_widget [of rt w d e "widgets s ! i"]
  by (simp add: onFulfilled_def onRejected_fallback)

lemma sunny_payload: "weather_payload int_runtime sunny"
  by (simp add: weather_payload_def has_primitives_def field_def sunny_def)

subsection \<open>C4: renderWeather on an arbitrary payload\<close>

text \<open>
  Claim C4, as the code has it. \<open>renderWeather\<close> does not throw on a payload that its guard
  takes for missing or erroneous (a falsy value, or one with a truthy \<open>error\<close>): the widget
  gets the fallback content. It does not throw on a payload of the documented shape either:
  the widget gets some content. On other payloads it may throw; what it throws is a
  TypeError, nothing has been assigned to the widget then, and in the promise chain of
  \<open>loadWeatherData\<close> the throw reaches the \<open>catch\<close> callback, which gives the widget the
  fallback content.
\<close>

theorem renderWeather_outcomes:
  "(unavailable rt d \<longrightarrow> renderWeather rt w d = Inr (w\<lparr>innerHTML := fallbackHtml\<rparr>))
   \<and> (weather_payload rt d \<longrightarrow> (\<exists>h. renderWeather rt w d = Inr (w\<lparr>innerHTML := h\<rparr>)))
   \<and> (\<forall>e. renderWeather rt w d = Inl e \<longrightarrow>
         e = TypeError \<and>
         (\<forall>i s. i < length (widgets s) \<longrightarrow>
            innerHTML (widgets (onFulfilled rt i d s) ! i) = fallbackHtml))"
  using render_unavailable [of rt d w] renderWeather_payload [of rt d w]
    renderWeather_error [of rt w d] onFulfilled_throw [of rt w d]
  by blast

text \<open>
  The claim as stated fails: on the empty object, which is neither falsy nor marked as an
  error, \<open>data.current\<close> is \<open>undefined\<close> and reading \<open>current.icon\<close> throws.
\<close>

theorem renderWeather_throws:
  "renderWeather int_runtime (empty_widget ''27'' ''85'') (JObj []) = Inl TypeError"
  by (simp add: renderWeather_def unavailable_def current_html_def interpolate_def and_then_def)

theorem renderWeather_outcomes_witness:
  "unavailable int_runtime error_body
   \<and> renderWeather int_runtime (empty_widget ''27'' ''85'') error_body
       = Inr ((empty_widget ''27'' ''85'')\<lparr>innerHTML := fallbackHtml\<rparr>)
   \<and> weather_payload int_runtime sunny
   \<and> (\<exists>h. renderWeather int_runtime (empty_widget ''27'' ''85'') sunny
          = Inr ((empty_widget ''27'' ''85'')\<lparr>innerHTML := h\<rparr>))
   \<and> renderWeather int_runtime (empty_widget ''27'' ''85'') (JObj []) = Inl TypeError
   \<and> innerHTML (widgets (onFulfilled int_runtime 1 (JObj []) fresh_page) ! 1) = fallbackHtml"
proof -
  have throws: "renderWeather int_runtime (empty_widget ''27'' ''85'') (JObj []) = Inl TypeError"
    by (simp add: renderWeather_def unavailable_def current_html_def interpolate_def and_then_def)
  have len: "1 < length (widgets fresh_page)"
    by (simp add: fresh_page_def)
  note inst = renderWeather_outcomes [where rt = int_runtime and w = "empty_widget ''27'' ''85''"]
  from inst [where d = error_body] error_body_unavailable
  have a: "renderWeather int_runtime (empty_widget ''27'' ''85'') error_body
       = Inr ((empty_widget ''27'' ''85'')\<lparr>innerHTML := fallbackHtml\<rparr>)"
    by simp
  from inst [where d = sunny] sunny_payload
  have b: "\<exists>h. renderWeather int_runtime (empty_widget ''27'' ''85'') sunny
          = Inr ((empty_widget ''27'' ''85'')\<lparr>innerHTML := h\<rparr>)"
    by simp
  from inst [where d = "JObj []"] throws len
  have c: "innerHTML (widgets (onFulfilled int_runtime 1 (JObj []) fresh_page) ! 1) = fallbackHtml"
    by blast
  from a b c throws error_body_unavailable sunny_payload show ?thesis
    by simp
qed

subsection \<open>C5: no payload, or an error marker\<close>

text \<open>
  Claim C5. \<open>renderWeather(widget, null)\<close> and \<open>renderWeather(widget, {error: true})\<close> return
  without throwing, whatever the widget and the runtime, and the widget's content is then
  \<open>fallbackHtml\<close>, the paragraph that reads "Weather data unavailable".
\<close>

theorem renderWeather_no_payload:
  "renderWeather rt w JNull = Inr (w\<lparr>innerHTML := fallbackHtml\<rparr>)
   \<and> renderWeather rt w (JObj [(''error'', JBool True)]) = Inr (w\<lparr>innerHTML := fallbackHtml\<rparr>)"
  by (simp add: renderWeather_def unavailable_def)

subsection \<open>What the callbacks and a response do to the page\<close>

lemma onRejected_page:
  "widgets (onRejected i e s) = (widgets s)[i := (widgets s ! i)\<lparr>innerHTML := fallbackHtml\<rparr>]
   \<and> waiting (onRejected i e s) = waiting s"
  by (simp add: onRejected_def list_update_beyond not_less)

lemma onFulfilled_page:
  "widgets (onFulfilled rt i d s) = (widgets s)[i := shown rt (widgets s ! i) d]
   \<and> waiting (onFulfilled rt i d s) = waiting s"
  by (simp add: onFulfilled_def shown_def onRejected_page list_update_beyond not_less
      split: sum.splits)

lemma run_chain_page:
  "widgets (run_chain rt i r s) = (widgets s)[i := chain_widget rt (widgets s ! i) r]
   \<and> waiting (run_chain rt i r s) = waiting s"
  by (cases r) (simp_all add: run_chain_def onFulfilled_page onRejected_page)

lemma settle_page:
  "settle p resp t s = (r, s') \<Longrightarrow> widgets s' = widgets s \<and> waiting s' = waiting s"
  by (auto simp: settle_def fetchWeather_then_def split: promise.splits response.splits option.splits)

lemma settle_pending_result:
  "fst (settle (Pending k key) resp t s) =
     (case resp of NetworkFailure \<Rightarrow> Rejected NetworkError
      | HttpResponse status body \<Rightarrow>
          (case body of None \<Rightarrow> Rejected SyntaxError | Some d \<Rightarrow> Fulfilled d))"
  by (simp add: settle_def fetchWeather_then_def split: response.splits option.splits)

lemma respond_none:
  "find (waits_for k) (waiting s) = None \<Longrightarrow> respond rt k resp t s = s"
  by (simp add: respond_def)

lemma respond_some:
  assumes "find (waits_for k) (waiting s) = Some (i, p)"
  shows "widgets (respond rt k resp t s)
           = (widgets s)[i := chain_widget rt (widgets s ! i) (fst (settle p resp t s))]
         \<and> waiting (respond rt k resp t s) = filter (\<lambda>c. \<not> waits_for k c) (waiting s)"
proof -
  let ?s2 = "s\<lparr>waiting := filter (\<lambda>c. \<not> waits_for k c) (waiting s)\<rparr>"
  obtain r s3 where st: "settle p resp t ?s2 = (r, s3)"
    by (cases "settle p resp t ?s2")
  have same: "fst (settle p resp t s) = r"
    using st by (auto simp: settle_def fetchWeather_then_def
        split: promise.splits response.splits option.splits)
  from settle_page [OF st] assms st same show ?thesis
    by (simp add: respond_def run_chain_page)
qed

lemma respond_length: "length (widgets (respond rt k resp t s)) = length (widgets s)"
proof (cases "find (waits_for k) (waiting s)")
  case None
  then show ?thesis by (simp add: respond_none)
next
  case (Some c)
  then show ?thesis by (cases c) (simp add: respond_some)
qed

lemma respond_waiting_subset: "set (waiting (respond rt k resp t s)) \<subseteq> set (waiting s)"
proof (cases "find (waits_for k) (waiting s)")
  case None
  then show ?thesis by (simp add: respond_none)
next
  case (Some c)
  then show ?thesis by (cases c) (auto simp: respond_some)
qed

lemma respond_other_widget:
  assumes "\<forall>p. (i, p) \<in> set (waiting s) \<longrightarrow> \<not> waits_for k (i, p)"
  shows "widgets (respond rt k resp t s) ! i = widgets s ! i"
proof (cases "find (waits_for k) (waiting s)")
  case None
  then show ?thesis by (simp add: respond_none)
next
  case (Some c)
  obtain i' p where c: "c = (i', p)" by (cases c)
  from Some c have "(i', p) \<in> set (waiting s)" "waits_for k (i', p)"
    by (auto simp: find_Some_iff in_set_conv_nth)
  with assms have "i' \<noteq> i" by auto
  with Some c show ?thesis by (simp add: respond_some)
qed

lemma settle_result_of: "fst (settle (Pending k key) resp t s) = result_of resp"
  by (cases resp rule: result_of.cases) (simp_all add: settle_def fetchWeather_then_def)

lemma chains_apart_filter: "chains_apart cs \<Longrightarrow> chains_apart (filter P cs)"
  by (auto simp: chains_apart_def distinct_map_filter)

lemma same_index_same_chain:
  "chains_apart cs \<Longrightarrow> (i, p) \<in> set cs \<Longrightarrow> (i, p') \<in> set cs \<Longrightarrow> p = p'"
  by (auto simp: chains_apart_def dest: eq_key_imp_eq_value)

lemma find_chain:
  assumes apart: "chains_apart cs" and chain: "(i, Pending k key) \<in> set cs"
  shows "find (waits_for k) cs = Some (i, Pending k key)"
proof (cases "find (waits_for k) cs")
  case None
  moreover have "waits_for k (i, Pending k key)"
    by simp
  ultimately show ?thesis
    using chain unfolding find_None_iff by blast
next
  case (Some c)
  obtain i' p' where c: "c = (i', p')" by (cases c)
  from Some c have mem: "(i', p') \<in> set cs" and w: "waits_for k (i', p')"
    by (auto simp: find_Some_iff in_set_conv_nth)
  from w obtain key' where p': "p' = Pending k key'"
    by (cases p') auto
  from apart chain mem p' have "i' = i"
    by (auto simp: chains_apart_def)
  with apart chain mem have "p' = Pending k key"
    using same_index_same_chain by blast
  with Some c \<open>i' = i\<close> show ?thesis by simp
qed

lemma run_arrivals_Nil: "run rt (arrivals []) s = s"
  by (simp add: run_def arrivals_def)

lemma run_arrivals_Cons:
  "run rt (arrivals ((k, resp, t) # rs)) s = run rt (arrivals rs) (respond rt k resp t s)"
  by (simp add: run_def arrivals_def)

lemma run_arrivals_length: "length (widgets (run rt (arrivals rs) s)) = length (widgets s)"
proof (induction rs arbitrary: s)
  case Nil
  then show ?case by (simp add: run_arrivals_Nil)
next
  case (Cons r rs)
  obtain k resp t where r: "r = (k, resp, t)" by (cases r)
  from Cons.IH [of "respond rt k resp t s"] r show ?case
    by (simp add: run_arrivals_Cons respond_length)
qed

lemma chainless_widget_untouched:
  "i \<notin> fst ` set (waiting s) \<Longrightarrow> widgets (run rt (arrivals rs) s) ! i = widgets s ! i"
proof (induction rs arbitrary: s)
  case Nil
  then show ?case by (simp add: run_arrivals_Nil)
next
  case (Cons r rs)
  obtain k resp t where r: "r = (k, resp, t)" by (cases r)
  from Cons.prems have none: "\<forall>p. (i, p) \<in> set (waiting s) \<longrightarrow> \<not> waits_for k (i, p)"
    by force
  from Cons.prems respond_waiting_subset [of rt k resp t s]
  have "i \<notin> fst ` set (waiting (respond rt k resp t s))"
    by auto
  from Cons.IH [OF this] respond_other_widget [OF none] r show ?case
    by (simp add: run_arrivals_Cons)
qed

lemma waiting_widget_settled:
  assumes "chains_apart (waiting s)"
    and "(i, Pending k key) \<in> set (waiting s)"
    and "distinct (map fst rs)"
    and "(k, resp, t) \<in> set rs"
    and "i < length (widgets s)"
  shows "widgets (run rt (arrivals rs) s) ! i = chain_widget rt (widgets s ! i) (result_of resp)"
  using assms
proof (induction rs arbitrary: s)
  case Nil
  then show ?case by simp
next
  case (Cons r rs)
  obtain k' resp' t' where r: "r = (k', resp', t')" by (cases r)
  let ?s = "respond rt k' resp' t' s"
  show ?case
  proof (cases "k' = k")
    case True
    from Cons.prems(3,4) r True have same: "resp' = resp" "t' = t"
      by (auto simp: image_iff)
    from find_chain [OF Cons.prems(1,2)]
    have found: "find (waits_for k) (waiting s) = Some (i, Pending k key)" .
    from respond_some [OF found, of rt resp t] Cons.prems(5)
    have now: "widgets (respond rt k resp t s) ! i = chain_widget rt (widgets s ! i) (result_of resp)"
      and left: "waiting (respond rt k resp t s) = filter (\<lambda>c. \<not> waits_for k c) (waiting s)"
      by (simp_all add: settle_result_of)
    have "i \<notin> fst ` set (waiting (respond rt k resp t s))"
    proof
      assume "i \<in> fst ` set (waiting (respond rt k resp t s))"
      with left obtain p where p: "(i, p) \<in> set (waiting s)" "\<not> waits_for k (i, p)"
        by auto
      from same_index_same_chain [OF Cons.prems(1) p(1) Cons.prems(2)] p(2) show False
        by simp
    qed
    from chainless_widget_untouched [OF this, of rt rs] now r True same show ?thesis
      by (simp add: run_arrivals_Cons)
  next
    case False
    have other: "\<forall>p. (i, p) \<in> set (waiting s) \<longrightarrow> \<not> waits_for k' (i, p)"
    proof (intro allI impI)
      fix p assume "(i, p) \<in> set (waiting s)"
      from same_index_same_chain [OF Cons.prems(1) this Cons.prems(2)] False
      show "\<not> waits_for k' (i, p)" by simp
    qed
    have kept: "(i, Pending k key) \<in> set (waiting ?s)"
    proof (cases "find (waits_for k') (waiting s)")
      case None
      with Cons.prems(2) show ?thesis by (simp add: respond_none)
    next
      case (Some c)
      then show ?thesis using Cons.prems(2) False
        by (cases c) (simp add: respond_some)
    qed
    have apart: "chains_apart (waiting ?s)"
    proof (cases "find (waits_for k') (waiting s)")
      case None
      with Cons.prems(1) show ?thesis by (simp add: respond_none)
    next
      case (Some c)
      then show ?thesis using Cons.prems(1)
        by (cases c) (simp add: respond_some chains_apart_filter)
    qed
    from Cons.prems(3,4) r False have rest: "distinct (map fst rs)" "(k, resp, t) \<in> set rs"
      by auto
    from Cons.prems(5) have len: "i < length (widgets ?s)"
      by (simp add: respond_length)
    from Cons.IH [OF apart kept rest len] respond_other_widget [OF other, of rt resp' t'] r
    show ?thesis
      by (simp add: run_arrivals_Cons)
  qed
qed

subsection \<open>The chains that one pass attaches\<close>

lemma fetchWeather_page:
  assumes "fetchWeather rt lat lon now s = (p, s')"
  shows "widgets s' = widgets s \<and> waiting s' = waiting s \<and>
         ((\<exists>d. p = Resolved d) \<and> requests s' = requests s \<or>
          (\<exists>key. p = Pending (length (requests s)) key) \<and>
            length (requests s') = Suc (length (requests s)))"
  using assms by (auto simp: fetchWeather_def Let_def split: option.splits if_splits)

lemma loading_inv_step:
  assumes inv: "loading_inv i s" and f: "fetchWeather rt lat lon now s = (p, s')"
  shows "loading_inv (Suc i) (s'\<lparr>waiting := waiting s' @ [(i, p)]\<rparr>)"
proof -
  from fetchWeather_page [OF f] have w: "waiting s' = waiting s"
    and cases: "(\<exists>d. p = Resolved d) \<and> requests s' = requests s \<or>
          (\<exists>key. p = Pending (length (requests s)) key) \<and>
            length (requests s') = Suc (length (requests s))"
    by simp_all
  from inv have apart: "chains_apart (waiting s)"
    and below: "\<forall>c \<in> set (waiting s). fst c < i"
    and ids: "\<forall>j k key. (j, Pending k key) \<in> set (waiting s) \<longrightarrow> k < length (requests s)"
    by (simp_all add: loading_inv_def)
  from below have fresh: "i \<notin> fst ` set (waiting s)"
    by auto
  have a: "chains_apart (waiting s @ [(i, p)])"
    unfolding chains_apart_def
  proof (intro conjI allI impI)
    from apart fresh show "distinct (map fst (waiting s @ [(i, p)]))"
      by (simp add: chains_apart_def)
  next
    fix j j' k key key'
    assume m: "(j, Pending k key) \<in> set (waiting s @ [(i, p)])"
      and m': "(j', Pending k key') \<in> set (waiting s @ [(i, p)])"
    have new: "(j0, Pending k key0) \<notin> set (waiting s)" if "p = Pending k key1" for j0 key0 key1
    proof
      assume "(j0, Pending k key0) \<in> set (waiting s)"
      with ids have "k < length (requests s)" by blast
      with cases that show False by auto
    qed
    from apart have old: "j = j'"
      if "(j, Pending k key) \<in> set (waiting s)" "(j', Pending k key') \<in> set (waiting s)"
      using that unfolding chains_apart_def by blast
    from m m' new old show "j = j'"
      by auto
  qed
  from below have b: "\<forall>c \<in> set (waiting s @ [(i, p)]). fst c < Suc i"
    by (auto simp: less_Suc_eq)
  have c: "\<forall>j k key. (j, Pending k key) \<in> set (waiting s @ [(i, p)]) \<longrightarrow> k < length (requests s')"
  proof (intro allI impI)
    fix j k key
    assume "(j, Pending k key) \<in> set (waiting s @ [(i, p)])"
    then consider "(j, Pending k key) \<in> set (waiting s)" | "p = Pending k key"
      by auto
    then show "k < length (requests s')"
    proof cases
      case 1
      with ids have "k < length (requests s)" by blast
      with cases show ?thesis by auto
    next
      case 2
      with cases show ?thesis by auto
    qed
  qed
  from a b c w show ?thesis
    by (simp add: loading_inv_def)
qed

lemma load_widgets_inv:
  "loading_inv i s \<Longrightarrow>
   loading_inv (i + length ws) (load_widgets rt clock i ws s) \<and>
   widgets (load_widgets rt clock i ws s) = widgets s"
proof (induction ws arbitrary: i s)
  case Nil
  then show ?case by simp
next
  case (Cons w ws)
  obtain p s' where f: "fetchWeather rt (parseFloat rt (weatherLat w)) (parseFloat rt (weatherLon w))
                          (clock i) s = (p, s')"
    by (cases "fetchWeather rt (parseFloat rt (weatherLat w)) (parseFloat rt (weatherLon w)) (clock i) s")
  from Cons.IH [OF loading_inv_step [OF Cons.prems f]] fetchWeather_page [OF f] f
  show ?case by (simp add: Let_def)
qed

lemma loadWeatherData_apart:
  assumes "waiting s = []"
  shows "chains_apart (waiting (loadWeatherData rt clock s)) \<and>
         widgets (loadWeatherData rt clock s) = widgets s"
proof -
  from assms have "loading_inv 0 (s\<lparr>loads := Suc (loads s)\<rparr>)"
    by (simp add: loading_inv_def chains_apart_def)
  from load_widgets_inv [OF this, of "widgets s" rt clock] show ?thesis
    by (simp add: loadWeatherData_def loading_inv_def)
qed

lemma run_resolved_page:
  "length (widgets (run_resolved rt cs s)) = length (widgets s) \<and>
   waiting (run_resolved rt cs s) = waiting s"
  by (induction rt cs s rule: run_resolved.induct) (simp_all add: onFulfilled_page)

lemma run_resolved_other:
  "(\<forall>d. (j, Resolved d) \<notin> set cs) \<Longrightarrow> widgets (run_resolved rt cs s) ! j = widgets s ! j"
  by (induction rt cs s rule: run_resolved.induct) (auto simp: onFulfilled_page)

lemma run_resolved_shown:
  "distinct (map fst cs) \<Longrightarrow> (j, Resolved d) \<in> set cs \<Longrightarrow> j < length (widgets s) \<Longrightarrow>
   widgets (run_resolved rt cs s) ! j = shown rt (widgets s ! j) d"
proof (induction rt cs s rule: run_resolved.induct)
  case (1 rt s)
  then show ?case by simp
next
  case (2 rt i d' cs s)
  show ?case
  proof (cases "i = j")
    case True
    with "2.prems" have d: "d' = d" and gone: "\<forall>d. (j, Resolved d) \<notin> set cs"
      by (auto simp: image_iff)
    from run_resolved_other [OF gone, of rt "onFulfilled rt i d' s"] True d "2.prems"(3)
    show ?thesis by (simp add: onFulfilled_page)
  next
    case False
    with "2.prems" "2.IH" show ?thesis
      by (simp add: onFulfilled_page)
  qed
next
  case (3 rt i k key cs s)
  then show ?case by auto
qed

lemma run_microtasks_page:
  "waiting (run_microtasks rt s) = filter (\<lambda>c. is_pending (snd c)) (waiting s) \<and>
   length (widgets (run_microtasks rt s)) = length (widgets s)"
  by (simp add: run_microtasks_def run_resolved_page)

lemma run_microtasks_shown:
  "distinct (map fst (waiting s)) \<Longrightarrow> (j, Resolved d) \<in> set (waiting s) \<Longrightarrow>
   j < length (widgets s) \<Longrightarrow>
   widgets (run_microtasks rt s) ! j = shown rt (widgets s ! j) d"
  using run_resolved_shown [where cs = "waiting s" and j = j and d = d and rt = rt
      and s = "s\<lparr>waiting := filter (\<lambda>c. is_pending (snd c)) (waiting s)\<rparr>"]
  by (simp add: run_microtasks_def)

lemma run_microtasks_other:
  "(\<forall>d. (j, Resolved d) \<notin> set (waiting s)) \<Longrightarrow>
   widgets (run_microtasks rt s) ! j = widgets s ! j"
  using run_resolved_other [where cs = "waiting s" and j = j and rt = rt
      and s = "s\<lparr>waiting := filter (\<lambda>c. is_pending (snd c)) (waiting s)\<rparr>"]
  by (simp add: run_microtasks_def)

lemma rejects_result: "rejects resp \<Longrightarrow> \<exists>e. result_of resp = Rejected e"
  by (cases resp rule: result_of.cases) (simp_all add: rejects_def)

lemma pass_outcome:
  assumes apart: "chains_apart (waiting s0)" and once: "distinct (map fst rs)"
  shows "(i, Pending k key) \<in> set (waiting s0) \<Longrightarrow> (k, resp, t) \<in> set rs \<Longrightarrow>
         i < length (widgets s0) \<Longrightarrow>
         widgets (run rt (arrivals rs) (run_microtasks rt s0)) ! i
           = chain_widget rt (widgets s0 ! i) (result_of resp)"
    and "(j, Resolved d) \<in> set (waiting s0) \<Longrightarrow> j < length (widgets s0) \<Longrightarrow>
         widgets (run rt (arrivals rs) (run_microtasks rt s0)) ! j = shown rt (widgets s0 ! j) d"
proof -
  let ?s1 = "run_microtasks rt s0"
  have w1: "waiting ?s1 = filter (\<lambda>c. is_pending (snd c)) (waiting s0)"
    and len: "length (widgets ?s1) = length (widgets s0)"
    by (simp_all add: run_microtasks_page)
  from apart w1 have apart1: "chains_apart (waiting ?s1)"
    by (simp add: chains_apart_filter)
  from apart have dist: "distinct (map fst (waiting s0))"
    by (simp add: chains_apart_def)
  {
    assume chain: "(i, Pending k key) \<in> set (waiting s0)" and r: "(k, resp, t) \<in> set rs"
      and i: "i < length (widgets s0)"
    have "\<forall>d. (i, Resolved d) \<notin> set (waiting s0)"
      using same_index_same_chain [OF apart chain] by fastforce
    from run_microtasks_other [OF this, of rt] have same: "widgets ?s1 ! i = widgets s0 ! i" .
    from chain w1 have chain1: "(i, Pending k key) \<in> set (waiting ?s1)"
      by simp
    from waiting_widget_settled [OF apart1 chain1 once r, of rt] i len same
    show "widgets (run rt (arrivals rs) ?s1) ! i = chain_widget rt (widgets s0 ! i) (result_of resp)"
      by simp
  }
  {
    assume chain: "(j, Resolved d) \<in> set (waiting s0)" and j: "j < length (widgets s0)"
    have "j \<notin> fst ` set (waiting ?s1)"
    proof
      assume "j \<in> fst ` set (waiting ?s1)"
      with w1 obtain p where p: "(j, p) \<in> set (waiting s0)" "is_pending p"
        by auto
      from same_index_same_chain [OF apart p(1) chain] p(2) show False
        by simp
    qed
    from chainless_widget_untouched [OF this, of rt rs] run_microtasks_shown [OF dist chain j, of rt]
    show "widgets (run rt (arrivals rs) ?s1) ! j = shown rt (widgets s0 ! j) d"
      by simp
  }
qed

lemma init_page:
  "waiting (init rt clock s) = waiting (loadWeatherData rt clock s) \<and>
   widgets (init rt clock s) = widgets (loadWeatherData rt clock s)"
  by (simp add: init_def setupPeriodicUpdates_def)

lemma loading_waiting:
  "waiting (loadWeatherData int_runtime (\<lambda>i. 1000) fresh_page)
     = [(0, Pending 0 ''0,0''), (1, Pending 1 ''27,85'')]"
  using kathmandu_key kathmandu_url
  by (simp add: loadWeatherData_def fetchWeather_def fresh_page_def empty_widget_def
      int_runtime_parseFloat parse_zero parse_27 parse_85 zero_key zero_url
      kathmandu_lat_def kathmandu_lon_def)

lemma renderWeather_template:
  assumes payload: "weather_payload rt d" and marked: "\<not> unavailable rt d"
  shows "\<exists>c fc. current_html rt (field d ''current'') = Inr c \<and>
           forecast_html rt (if truthy rt (field d ''forecast'') then field d ''forecast''
                             else JArr []) = Inr fc \<and>
           renderWeather rt w d = Inr (w\<lparr>innerHTML := c @ fc @ tpl_end\<rparr>)"
proof -
  from marked have d: "d \<noteq> JUndefined" "d \<noteq> JNull"
    by (auto simp: unavailable_def)
  from payload obtain c where c: "current_html rt (field d ''current'') = Inr c"
    using current_html_total [of "field d ''current''" rt] by (auto simp: weather_payload_def)
  have "\<exists>fc. forecast_html rt (if truthy rt (field d ''forecast'') then field d ''forecast''
                                 else JArr []) = Inr fc"
  proof (cases "truthy rt (field d ''forecast'')")
    case True
    with payload obtain days where "field d ''forecast'' = JArr days"
      "list_all (\<lambda>day. has_primitives day [''date'', ''icon'', ''temp_max'', ''temp_min'']) days"
      by (auto simp: weather_payload_def split: jsval.splits)
    with True show ?thesis using forecast_html_total [of days rt] by simp
  next
    case False
    then show ?thesis using forecast_html_total [of "[]" rt] by simp
  qed
  then obtain fc where
    fc: "forecast_html rt (if truthy rt (field d ''forecast'') then field d ''forecast''
                           else JArr []) = Inr fc" ..
  from marked c fc
  have "renderWeather rt w d = Inr (w\<lparr>innerHTML := c @ fc @ tpl_end\<rparr>)"
    by (simp add: renderWeather_def get_prop_defined [OF d] and_then_def Let_def)
  with c fc show ?thesis by blast
qed

lemma current_html_start: "current_html rt cur = Inr c \<Longrightarrow> \<exists>rest. c = tpl_current_icon @ rest"
  by (auto simp: current_html_def and_then_def split: sum.splits)

lemma template_not_fallback: "tpl_current_icon @ rest \<noteq> fallbackHtml"
  by (simp add: tpl_current_icon_def fallbackHtml_def)

lemma sunny_available: "\<not> unavailable int_runtime sunny"
  by (simp add: unavailable_def sunny_def)

lemma sunny_current:
  "current_html int_runtime (field sunny ''current'')
     = Inr (tpl_current_icon @ ''01d'' @ tpl_current_alt @ ''clear sky'' @ tpl_current_temp @ ''21'' @
            tpl_current_desc @ ''clear sky'' @ tpl_current_humidity @ ''40'' @
            tpl_current_wind @ ''3'' @ tpl_current_end)"
  by (simp add: field_def sunny_def current_html_def interpolate_def and_then_def
      int_runtime_def int_to_string_def show_nat.simps digit_char_def)

lemma sunny_forecast:
  "forecast_html int_runtime
     (if truthy int_runtime (field sunny ''forecast'') then field sunny ''forecast'' else JArr [])
     = Inr (tpl_forecast_open @ tpl_day_date @ ''Mon'' @ tpl_day_icon @ ''02d'' @ tpl_day_max @
            ''23'' @ tpl_day_min @ ''12'' @ tpl_day_end @ tpl_forecast_close)"
  by (simp add: field_def sunny_def forecast_html_def day_html_def interpolate_def and_then_def
      int_runtime_def int_to_string_def show_nat.simps digit_char_def)

subsection \<open>C6: the widgets of a pass are independent\<close>

text \<open>
  Claim C6. Take a pass of \<open>loadWeatherData\<close>, at startup or on a timer tick, over a page
  where no chain of an earlier pass is still waiting, and let the responses \<open>rs\<close> arrive
  afterwards in any order, each request answered at most once. Let the chain of widget \<open>i\<close>
  wait for a request whose response is a network failure or a body that is not JSON. Let
  the promise of widget \<open>j\<close> be resolved from the cache with \<open>d\<close>, or its request be answered
  with the payload \<open>d\<close>, where \<open>d\<close> is weather to show: of the documented shape and not taken
  by the guard for missing or erroneous. Then widget \<open>i\<close> ends with the fallback content,
  and widget \<open>j\<close> ends with the filled-in template as its content and is otherwise as it was:
  the markup \<open>c\<close> that \<open>current_html\<close> builds from \<open>d.current\<close>, followed by the markup \<open>fc\<close>
  that \<open>forecast_html\<close> builds from \<open>d.forecast\<close> and by the closing text of the template.
  That content is not the fallback content. Neither outcome depends on the other widget or
  on any other response.
\<close>

theorem independent_widgets:
  assumes idle: "waiting s = []"
    and i: "i < length (widgets s)" and j: "j < length (widgets s)"
    and once: "distinct (map fst rs)"
    and fails: "(i, Pending k key) \<in> set (waiting (loadWeatherData rt clock s))"
               "(k, resp, t) \<in> set rs" "rejects resp"
    and succeeds: "(j, Resolved d) \<in> set (waiting (loadWeatherData rt clock s)) \<or>
               (\<exists>k' key' status t'.
                  (j, Pending k' key') \<in> set (waiting (loadWeatherData rt clock s)) \<and>
                  (k', HttpResponse status (Some d), t') \<in> set rs)"
    and weather: "weather_payload rt d" "\<not> unavailable rt d"
  shows "\<exists>c fc. current_html rt (field d ''current'') = Inr c \<and>
           forecast_html rt (if truthy rt (field d ''forecast'') then field d ''forecast''
                             else JArr []) = Inr fc \<and>
           c @ fc @ tpl_end \<noteq> fallbackHtml \<and>
           (\<forall>pass. pass = startup rt clock s \<or> pass = run_callback rt clock LoadWeatherData s \<longrightarrow>
              innerHTML (widgets (run rt (arrivals rs) pass) ! i) = fallbackHtml \<and>
              widgets (run rt (arrivals rs) pass) ! j
                = (widgets s ! j)\<lparr>innerHTML := c @ fc @ tpl_end\<rparr>)"
proof -
  from renderWeather_template [OF weather, of "widgets s ! j"] obtain c fc where
    c: "current_html rt (field d ''current'') = Inr c"
    and fc: "forecast_html rt (if truthy rt (field d ''forecast'') then field d ''forecast''
                               else JArr []) = Inr fc"
    and rendered: "renderWeather rt (widgets s ! j) d
                     = Inr ((widgets s ! j)\<lparr>innerHTML := c @ fc @ tpl_end\<rparr>)"
    by blast
  from rendered have shown: "shown rt (widgets s ! j) d = (widgets s ! j)\<lparr>innerHTML := c @ fc @ tpl_end\<rparr>"
    by (simp add: shown_def)
  from current_html_start [OF c] template_not_fallback
  have differs: "c @ fc @ tpl_end \<noteq> fallbackHtml"
    by auto
  from loadWeatherData_apart [OF idle, of rt clock]
  have apart: "chains_apart (waiting (loadWeatherData rt clock s))"
    and same: "widgets (loadWeatherData rt clock s) = widgets s"
    by simp_all
  have goal: "innerHTML (widgets (run rt (arrivals rs) (run_microtasks rt s0)) ! i) = fallbackHtml \<and>
           widgets (run rt (arrivals rs) (run_microtasks rt s0)) ! j
             = (widgets s ! j)\<lparr>innerHTML := c @ fc @ tpl_end\<rparr>"
    if s0: "waiting s0 = waiting (loadWeatherData rt clock s)" "widgets s0 = widgets s" for s0
  proof
    from apart s0 have a0: "chains_apart (waiting s0)" by simp
    from rejects_result [OF fails(3)] obtain e where e: "result_of resp = Rejected e" ..
    from pass_outcome(1) [OF a0 once, of i k key resp t rt] fails(1,2) i s0 e
    show "innerHTML (widgets (run rt (arrivals rs) (run_microtasks rt s0)) ! i) = fallbackHtml"
      by simp
    from succeeds show "widgets (run rt (arrivals rs) (run_microtasks rt s0)) ! j
                          = (widgets s ! j)\<lparr>innerHTML := c @ fc @ tpl_end\<rparr>"
    proof
      assume "(j, Resolved d) \<in> set (waiting (loadWeatherData rt clock s))"
      with pass_outcome(2) [OF a0 once, of j d rt] j s0 shown show ?thesis by simp
    next
      assume "\<exists>k' key' status t'.
                (j, Pending k' key') \<in> set (waiting (loadWeatherData rt clock s)) \<and>
                (k', HttpResponse status (Some d), t') \<in> set rs"
      then obtain k' key' status t' where
        "(j, Pending k' key') \<in> set (waiting (loadWeatherData rt clock s))"
        "(k', HttpResponse status (Some d), t') \<in> set rs"
        by blast
      with pass_outcome(1) [OF a0 once, of j k' key' "HttpResponse status (Some d)" t' rt] j s0 shown
      show ?thesis by simp
    qed
  qed
  from goal [of "init rt clock s"] goal [of "loadWeatherData rt clock s"] same
  have "\<forall>pass. pass = startup rt clock s \<or> pass = run_callback rt clock LoadWeatherData s \<longrightarrow>
              innerHTML (widgets (run rt (arrivals rs) pass) ! i) = fallbackHtml \<and>
              widgets (run rt (arrivals rs) pass) ! j
                = (widgets s ! j)\<lparr>innerHTML := c @ fc @ tpl_end\<rparr>"
    by (auto simp: startup_def init_page)
  with c fc differs show ?thesis by blast
qed

theorem independent_widgets_witness:
  "waiting fresh_page = []
   \<and> waiting (loadWeatherData int_runtime (\<lambda>i. 1000) fresh_page)
       = [(0, Pending 0 ''0,0''), (1, Pending 1 ''27,85'')]
   \<and> rejects (HttpResponse 500 None :: (int option) response)
   \<and> weather_payload int_runtime sunny \<and> \<not> unavailable int_runtime sunny
   \<and> innerHTML (widgets (run int_runtime
         (arrivals [(1, HttpResponse 200 (Some sunny), 1200), (0, HttpResponse 500 None, 1300)])
         (startup int_runtime (\<lambda>i. 1000) fresh_page)) ! 0) = fallbackHtml
   \<and> widgets (run int_runtime
         (arrivals [(1, HttpResponse 200 (Some sunny), 1200), (0, HttpResponse 500 None, 1300)])
         (startup int_runtime (\<lambda>i. 1000) fresh_page)) ! 1
       = \<lparr>weatherLat = ''27'', weatherLon = ''85'',
          innerHTML =
            tpl_current_icon @ ''01d'' @ tpl_current_alt @ ''clear sky'' @ tpl_current_temp @ ''21'' @
            tpl_current_desc @ ''clear sky'' @ tpl_current_humidity @ ''40'' @
            tpl_current_wind @ ''3'' @ tpl_current_end @
            tpl_forecast_open @ tpl_day_date @ ''Mon'' @ tpl_day_icon @ ''02d'' @ tpl_day_max @
            ''23'' @ tpl_day_min @ ''12'' @ tpl_day_end @ tpl_forecast_close @ tpl_end\<rparr>
   \<and> innerHTML (widgets (run int_runtime
         (arrivals [(1, HttpResponse 200 (Some sunny), 1200), (0, HttpResponse 500 None, 1300)])
         (startup int_runtime (\<lambda>i. 1000) fresh_page)) ! 1) \<noteq> fallbackHtml"
proof -
  let ?rs = "[(1, HttpResponse 200 (Some sunny), 1200), (0, HttpResponse 500 None, 1300)]
               :: (nat \<times> (int option) response \<times> int) list"
  let ?final = "run int_runtime (arrivals ?rs) (startup int_runtime (\<lambda>i. 1000) fresh_page)"
  have idle: "waiting fresh_page = []"
    by (simp add: fresh_page_def)
  have i: "0 < length (widgets fresh_page)" and j: "1 < length (widgets fresh_page)"
    by (simp_all add: fresh_page_def)
  have once: "distinct (map fst ?rs)"
    by simp
  have fails: "(0, Pending 0 ''0,0'') \<in> set (waiting (loadWeatherData int_runtime (\<lambda>i. 1000) fresh_page))"
    "(0, HttpResponse 500 None, 1300) \<in> set ?rs"
    "rejects (HttpResponse 500 None :: (int option) response)"
    by (simp_all add: loading_waiting rejects_def)
  have succeeds: "(1, Resolved sunny) \<in> set (waiting (loadWeatherData int_runtime (\<lambda>i. 1000) fresh_page)) \<or>
     (\<exists>k' key' status t'.
        (1, Pending k' key') \<in> set (waiting (loadWeatherData int_runtime (\<lambda>i. 1000) fresh_page)) \<and>
        (k', HttpResponse status (Some sunny), t') \<in> set ?rs)"
    by (simp add: loading_waiting)
  have w1: "widgets fresh_page ! 1 = empty_widget ''27'' ''85''"
    by (simp add: fresh_page_def)
  from independent_widgets [OF idle i j once fails succeeds sunny_payload sunny_available]
  obtain c fc where
    c: "current_html int_runtime (field sunny ''current'') = Inr c"
    and fc: "forecast_html int_runtime
               (if truthy int_runtime (field sunny ''forecast'') then field sunny ''forecast''
                else JArr []) = Inr fc"
    and differs: "c @ fc @ tpl_end \<noteq> fallbackHtml"
    and first: "innerHTML (widgets ?final ! 0) = fallbackHtml"
    and second: "widgets ?final ! 1 = (widgets fresh_page ! 1)\<lparr>innerHTML := c @ fc @ tpl_end\<rparr>"
    by blast
  from c sunny_current have c_eq: "c = tpl_current_icon @ ''01d'' @ tpl_current_alt @ ''clear sky'' @
      tpl_current_temp @ ''21'' @ tpl_current_desc @ ''clear sky'' @ tpl_current_humidity @ ''40'' @
      tpl_current_wind @ ''3'' @ tpl_current_end"
    by simp
  from fc sunny_forecast have fc_eq: "fc = tpl_forecast_open @ tpl_day_date @ ''Mon'' @ tpl_day_icon @
      ''02d'' @ tpl_day_max @ ''23'' @ tpl_day_min @ ''12'' @ tpl_day_end @ tpl_forecast_close"
    by simp
  from second w1 c_eq fc_eq
  have content: "widgets ?final ! 1
       = \<lparr>weatherLat = ''27'', weatherLon = ''85'',
          innerHTML =
            tpl_current_icon @ ''01d'' @ tpl_current_alt @ ''clear sky'' @ tpl_current_temp @ ''21'' @
            tpl_current_desc @ ''clear sky'' @ tpl_current_humidity @ ''40'' @
            tpl_current_wind @ ''3'' @ tpl_current_end @
            tpl_forecast_open @ tpl_day_date @ ''Mon'' @ tpl_day_icon @ ''02d'' @ tpl_day_max @
            ''23'' @ tpl_day_min @ ''12'' @ tpl_day_end @ tpl_forecast_close @ tpl_end\<rparr>"
    by (simp add: empty_widget_def)
  from second differs have "innerHTML (widgets ?final ! 1) \<noteq> fallbackHtml"
    by simp
  with idle fails(3) sunny_payload sunny_available first content show ?thesis
    by (simp add: loading_waiting)
qed

subsection \<open>C7: the cache key depends on the two numbers only\<close>

lemma fetchWeather_then_other_key:
  "key' \<noteq> key \<Longrightarrow> cache (snd (fetchWeather_then key resp t s)) key' = cache s key'"
  by (simp add: fetchWeather_then_def split: response.splits option.splits)

lemma await_other_key:
  "key' \<noteq> cacheKey rt lat lon \<Longrightarrow>
   cache (snd (fetchWeather_await rt lat lon now resp t s)) key' = cache s key'"
  by (simp add: fetchWeather_await_def fetchWeather_def settle_def Let_def
      fetchWeather_then_other_key split: option.splits)

lemma parse_27_spaced: "int_parseFloat '' 27.0'' = Some 27"
  by (simp add: int_parseFloat_def read_unsigned_def is_digit_def digit_value_def)

lemma parse_85_signed: "int_parseFloat ''+85'' = Some 85"
  by (simp add: int_parseFloat_def read_unsigned_def is_digit_def digit_value_def)

text \<open>
  Claim C7. The key is built from the two numbers that \<open>parseFloat\<close> returned, never from
  the text of the attributes. Two pairs of attribute strings that parse to the same two
  numbers give the same key; the entry that a fulfilled call for one pair leaves is the
  entry that a call for the other pair finds and is served from while it is fresh; and a
  call changes no entry under any other key.
\<close>

theorem cache_key_stable:
  assumes "parseFloat rt a = parseFloat rt a'" and "parseFloat rt b = parseFloat rt b'"
  shows "cacheKey rt (parseFloat rt a) (parseFloat rt b)
           = cacheKey rt (parseFloat rt a') (parseFloat rt b')
     \<and> (fetchWeather_await rt (parseFloat rt a) (parseFloat rt b) now resp t s = (Fulfilled p, s') \<longrightarrow>
          (\<exists>e. cache s' (cacheKey rt (parseFloat rt a') (parseFloat rt b')) = Some e \<and> data e = p \<and>
             (\<forall>now2 resp2 t2. now2 - timestamp e < 300000 \<longrightarrow>
                fetchWeather_await rt (parseFloat rt a') (parseFloat rt b') now2 resp2 t2 s'
                  = (Fulfilled p, s'))))
     \<and> (\<forall>key. key \<noteq> cacheKey rt (parseFloat rt a') (parseFloat rt b') \<longrightarrow>
          cache (snd (fetchWeather_await rt (parseFloat rt a) (parseFloat rt b) now resp t s)) key
            = cache s key)"
proof (intro conjI impI allI)
  from assms show "cacheKey rt (parseFloat rt a) (parseFloat rt b)
           = cacheKey rt (parseFloat rt a') (parseFloat rt b')"
    by simp
next
  assume first: "fetchWeather_await rt (parseFloat rt a) (parseFloat rt b) now resp t s = (Fulfilled p, s')"
  from await_fulfilled_entry [OF first] obtain e where
    e: "cache s' (cacheKey rt (parseFloat rt a) (parseFloat rt b)) = Some e" "data e = p"
    by blast
  have "fetchWeather_await rt (parseFloat rt a) (parseFloat rt b) now2 resp2 t2 s' = (Fulfilled p, s')"
    if "now2 - timestamp e < 300000" for now2 resp2 t2
    using await_hit [OF e(1) that, of resp2 t2] e(2) by simp
  with e assms
  show "\<exists>e. cache s' (cacheKey rt (parseFloat rt a') (parseFloat rt b')) = Some e \<and> data e = p \<and>
             (\<forall>now2 resp2 t2. now2 - timestamp e < 300000 \<longrightarrow>
                fetchWeather_await rt (parseFloat rt a') (parseFloat rt b') now2 resp2 t2 s'
                  = (Fulfilled p, s'))"
    by auto
next
  fix key assume "key \<noteq> cacheKey rt (parseFloat rt a') (parseFloat rt b')"
  with assms show "cache (snd (fetchWeather_await rt (parseFloat rt a) (parseFloat rt b) now resp t s)) key
            = cache s key"
    by (simp add: await_other_key)
qed

theorem cache_key_stable_witness:
  "parseFloat int_runtime ''27'' = parseFloat int_runtime '' 27.0''
   \<and> parseFloat int_runtime ''85'' = parseFloat int_runtime ''+85''
   \<and> cacheKey int_runtime (parseFloat int_runtime '' 27.0'') (parseFloat int_runtime ''+85'') = ''27,85''
   \<and> fetchWeather_await int_runtime (parseFloat int_runtime '' 27.0'') (parseFloat int_runtime ''+85'')
        301199 NetworkFailure 301250 cached_page = (Fulfilled sunny, cached_page)"
proof -
  have a: "parseFloat int_runtime ''27'' = parseFloat int_runtime '' 27.0''"
    and b: "parseFloat int_runtime ''85'' = parseFloat int_runtime ''+85''"
    by (simp_all add: int_runtime_parseFloat parse_27 parse_85 parse_27_spaced parse_85_signed)
  have first: "fetchWeather_await int_runtime (parseFloat int_runtime ''27'') (parseFloat int_runtime ''85'')
                 1000 (HttpResponse 200 (Some sunny)) 1200 fresh_page = (Fulfilled sunny, cached_page)"
    using first_fetch
    by (simp add: int_runtime_parseFloat parse_27 parse_85 kathmandu_lat_def kathmandu_lon_def)
  have key: "cacheKey int_runtime (parseFloat int_runtime ''27'') (parseFloat int_runtime ''85'') = ''27,85''"
    using kathmandu_key
    by (simp add: int_runtime_parseFloat parse_27 parse_85 kathmandu_lat_def kathmandu_lon_def)
  from cache_key_stable [OF a b, of 1000 "HttpResponse 200 (Some sunny)" 1200 fresh_page sunny cached_page]
    first key
  have k: "cacheKey int_runtime (parseFloat int_runtime '' 27.0'') (parseFloat int_runtime ''+85'') = ''27,85''"
    and hit: "\<exists>e. cache cached_page ''27,85'' = Some e \<and> data e = sunny \<and>
             (\<forall>now2 resp2 t2. now2 - timestamp e < 300000 \<longrightarrow>
                fetchWeather_await int_runtime (parseFloat int_runtime '' 27.0'')
                  (parseFloat int_runtime ''+85'') now2 resp2 t2 cached_page
                  = (Fulfilled sunny, cached_page))"
    by simp_all
  from hit have "fetchWeather_await int_runtime (parseFloat int_runtime '' 27.0'')
        (parseFloat int_runtime ''+85'') 301199 NetworkFailure 301250 cached_page
        = (Fulfilled sunny, cached_page)"
    by (auto simp: cached_page_def)
  with a b k show ?thesis by simp
qed

subsection \<open>Timers and the number of passes\<close>

lemma fetchWeather_timers:
  "fetchWeather rt lat lon now s = (p, s') \<Longrightarrow> loads s' = loads s \<and> intervals s' = intervals s"
  by (auto simp: fetchWeather_def Let_def split: option.splits if_splits)

lemma load_widgets_timers:
  "loads (load_widgets rt clock i ws s) = loads s \<and>
   intervals (load_widgets rt clock i ws s) = intervals s"
proof (induction ws arbitrary: i s)
  case Nil
  then show ?case by simp
next
  case (Cons w ws)
  obtain p s' where f: "fetchWeather rt (parseFloat rt (weatherLat w)) (parseFloat rt (weatherLon w))
                          (clock i) s = (p, s')"
    by (cases "fetchWeather rt (parseFloat rt (weatherLat w)) (parseFloat rt (weatherLon w)) (clock i) s")
  from fetchWeather_timers [OF f] Cons.IH [of "Suc i" "s'\<lparr>waiting := waiting s' @ [(i, p)]\<rparr>"] f
  show ?case by (simp add: Let_def)
qed

lemma loadWeatherData_timers:
  "loads (loadWeatherData rt clock s) = Suc (loads s) \<and>
   intervals (loadWeatherData rt clock s) = intervals s"
  by (simp add: loadWeatherData_def load_widgets_timers)

lemma onRejected_timers:
  "loads (onRejected i e s) = loads s \<and> intervals (onRejected i e s) = intervals s"
  by (simp add: onRejected_def)

lemma onFulfilled_timers:
  "loads (onFulfilled rt i d s) = loads s \<and> intervals (onFulfilled rt i d s) = intervals s"
  by (simp add: onFulfilled_def onRejected_timers split: sum.splits)

lemma run_resolved_timers:
  "loads (run_resolved rt cs s) = loads s \<and> intervals (run_resolved rt cs s) = intervals s"
  by (induction rt cs s rule: run_resolved.induct) (simp_all add: onFulfilled_timers)

lemma run_microtasks_timers:
  "loads (run_microtasks rt s) = loads s \<and> intervals (run_microtasks rt s) = intervals s"
  by (simp add: run_microtasks_def run_resolved_timers)

lemma settle_timers:
  "settle p resp t s = (r, s') \<Longrightarrow> loads s' = loads s \<and> intervals s' = intervals s"
  by (auto simp: settle_def fetchWeather_then_def split: promise.splits response.splits option.splits)

lemma respond_timers:
  "loads (respond rt k resp t s) = loads s \<and> intervals (respond rt k resp t s) = intervals s"
proof (cases "find (waits_for k) (waiting s)")
  case None
  then show ?thesis by (simp add: respond_def)
next
  case (Some c)
  obtain i p where c: "c = (i, p)" by (cases c)
  obtain r s' where st: "settle p resp t (s\<lparr>waiting := filter (\<lambda>c. \<not> waits_for k c) (waiting s)\<rparr>) = (r, s')"
    by (cases "settle p resp t (s\<lparr>waiting := filter (\<lambda>c. \<not> waits_for k c) (waiting s)\<rparr>)")
  from settle_timers [OF st] Some c st show ?thesis
    by (simp add: respond_def run_chain_def onFulfilled_timers onRejected_timers split: settled.splits)
qed

lemma run_callback_timers:
  "loads (run_callback rt clock cb s) = Suc (loads s) \<and>
   intervals (run_callback rt clock cb s) = intervals s"
  by (cases cb) (simp add: run_microtasks_timers loadWeatherData_timers)

lemma fire_timers:
  "loads (fold (\<lambda>timer. run_callback rt clock (snd timer)) ts s) = loads s + length ts \<and>
   intervals (fold (\<lambda>timer. run_callback rt clock (snd timer)) ts s) = intervals s"
  by (induction ts arbitrary: s) (simp_all add: run_callback_timers)

lemma handle_timers:
  "loads (handle rt ev s) = loads s + (if is_tick ev then length (intervals s) else 0) \<and>
   intervals (handle rt ev s) = intervals s"
  by (cases ev) (simp_all add: fire_timers respond_timers)

lemma run_timers:
  "loads (run rt es s) = loads s + length (filter is_tick es) * length (intervals s) \<and>
   intervals (run rt es s) = intervals s"
  unfolding run_def
proof (induction es arbitrary: s)
  case Nil
  then show ?case by simp
next
  case (Cons ev es)
  from Cons.IH [of "handle rt ev s"] handle_timers [of rt ev s]
  show ?case by simp
qed

lemma startup_timers:
  "loads (startup rt clock s) = Suc (loads s) \<and>
   intervals (startup rt clock s) = intervals s @ [(300000, LoadWeatherData)]"
  by (simp add: startup_def init_def setupPeriodicUpdates_def run_microtasks_timers
      loadWeatherData_timers weatherUpdateInterval_def)

subsection \<open>C8: one pass at startup and one per tick\<close>

text \<open>
  Claim C8. On a page where the module has registered no timer yet, \<open>startup\<close> runs
  \<open>loadWeatherData\<close> once and leaves exactly one timer, of period 300000 ms, whose callback
  is \<open>loadWeatherData\<close>. After any sequence of events, that timer is still the only one, the
  number of passes made is one plus the number of ticks among the events, and one more tick
  makes exactly one more pass.
\<close>

theorem refresh_once_per_tick:
  assumes "intervals s = []"
  shows "loads (startup rt clock s) = loads s + 1
     \<and> intervals (run rt es (startup rt clock s)) = [(300000, LoadWeatherData)]
     \<and> loads (run rt es (startup rt clock s)) = loads s + 1 + length (filter is_tick es)
     \<and> loads (handle rt (IntervalTick clock') (run rt es (startup rt clock s)))
         = loads (run rt es (startup rt clock s)) + 1"
  using assms run_timers [of rt es "startup rt clock s"] startup_timers [of rt clock s]
    handle_timers [of rt "IntervalTick clock'" "run rt es (startup rt clock s)"]
  by simp

theorem refresh_once_per_tick_witness:
  "intervals fresh_page = []
   \<and> loads (startup int_runtime (\<lambda>i. 1000) fresh_page) = 1
   \<and> loads (run int_runtime
        [ResponseArrived 1 (HttpResponse 200 (Some sunny)) 1200, IntervalTick (\<lambda>i. 301000),
         ResponseArrived 0 NetworkFailure 301050, IntervalTick (\<lambda>i. 601000)]
        (startup int_runtime (\<lambda>i. 1000) fresh_page)) = 3"
proof -
  have none: "intervals fresh_page = []"
    by (simp add: fresh_page_def)
  have zero: "loads fresh_page = 0"
    by (simp add: fresh_page_def)
  from refresh_once_per_tick [OF none, of int_runtime "\<lambda>i. 1000"
      "[ResponseArrived 1 (HttpResponse 200 (Some sunny)) 1200, IntervalTick (\<lambda>i. 301000),
        ResponseArrived 0 NetworkFailure 301050, IntervalTick (\<lambda>i. 601000)]"] none zero
  show ?thesis by simp
qed

end
